theory Spec2Isabelle
  imports Complex_Main "HOL-Library.List_Lexorder" "HOL-Library.Char_ord"
begin

section \<open>JavaScript primitives used by the services\<close>

text \<open>
  A JavaScript number is an IEEE 754 double. Whole numbers (scores produced by
  \<open>Math.round\<close>, counts, sequence values) are modelled as \<^typ>\<open>int\<close> or \<^typ>\<open>nat\<close>.
  Where the source adds, multiplies or divides fractions, a double is modelled by the
  real number it stands for and every operation rounds its exact result to the nearest
  double, ties to the even mantissa (\<open>toDouble\<close>). The exponent is not bounded:
  overflow, underflow and NaN are outside the model unless a definition says otherwise.
  \<open>Math.round\<close> is \<^const>\<open>round\<close>: the nearest whole number, halves upwards.
  The completeness score of the extraction service is computed over \<^typ>\<open>real\<close>: its
  lists of required fields have at most five entries, for which exact and double
  arithmetic give the same score.
\<close>

text \<open>The number of binary digits of a positive whole number.\<close>

function bitLength :: "int \<Rightarrow> int" where
  "bitLength n = (if n \<le> 0 then 0 else 1 + bitLength (n div 2))"
  by pat_completeness auto
termination
  by (relation "measure nat") auto

declare bitLength.simps [simp del]

text \<open>The binary exponent of a positive number \<open>x\<close>: the \<open>e\<close> with \<open>2^e \<le> x < 2^(e+1)\<close>.\<close>

definition exponentOf :: "real \<Rightarrow> int" where
  "exponentOf x = (if 1 \<le> x then bitLength \<lfloor>x\<rfloor> - 1 else - bitLength (\<lceil>1 / x\<rceil> - 1))"

definition pow2 :: "int \<Rightarrow> real" where
  "pow2 k = (if 0 \<le> k then 2 ^ nat k else 1 / 2 ^ nat (- k))"

definition roundHalfEven :: "real \<Rightarrow> int" where
  "roundHalfEven r =
     (let f = \<lfloor>r\<rfloor>; d = r - of_int f
      in if d < 1 / 2 then f else if 1 / 2 < d then f + 1 else if even f then f else f + 1)"

text \<open>
  The double nearest to \<open>x\<close>: \<open>x\<close> is rounded to 53 significant binary digits. It is also
  what a decimal literal of the source denotes: \<open>0.3\<close> is \<open>toDouble 0.3\<close>.
\<close>

definition toDouble :: "real \<Rightarrow> real" where
  "toDouble x =
     (if x = 0 then 0
      else let ulp = pow2 (exponentOf \<bar>x\<bar> - 52) in of_int (roundHalfEven (x / ulp)) * ulp)"

text \<open>\<open>x + y\<close>, \<open>x * y\<close> and \<open>x / y\<close> (for \<open>y\<close> other than 0) on doubles.\<close>

definition dadd :: "real \<Rightarrow> real \<Rightarrow> real" where
  "dadd x y = toDouble (x + y)"

definition dmul :: "real \<Rightarrow> real \<Rightarrow> real" where
  "dmul x y = toDouble (x * y)"

definition ddiv :: "real \<Rightarrow> real \<Rightarrow> real" where
  "ddiv x y = toDouble (x / y)"

definition digit_char :: "nat \<Rightarrow> char" where
  "digit_char d = ''0123456789'' ! d"

text \<open>\<open>String(n)\<close> of a non-negative whole number: its decimal digits.\<close>

function show_nat :: "nat \<Rightarrow> string" where
  "show_nat n = (if n < 10 then [digit_char n] else show_nat (n div 10) @ [digit_char (n mod 10)])"
  by pat_completeness auto
termination
  by (relation "measure id") auto

declare show_nat.simps [simp del]

text \<open>\<open>`${i}`\<close> for a whole number \<open>i\<close>.\<close>

definition show_int :: "int \<Rightarrow> string" where
  "show_int i = (if i < 0 then CHR ''-'' # show_nat (nat (- i)) else show_nat (nat i))"

text \<open>\<open>s.padStart(n, c)\<close> for a one-character pad string.\<close>

definition padStart :: "nat \<Rightarrow> char \<Rightarrow> string \<Rightarrow> string" where
  "padStart n c s = replicate (n - length s) c @ s"

text \<open>
  The built-in \<open>Date\<close> is outside the repository. A \<open>Date\<close> is its time value in
  milliseconds, \<open>None\<close> for an Invalid Date. The runtime supplies the wall clock
  (\<open>clock rt i\<close> is what the \<open>i\<close>-th \<open>new Date()\<close> of a call reads), the parser
  behind \<open>new Date(string)\<close>, and the calendar arithmetic of
  \<open>d.setMonth(d.getMonth() - m)\<close>.
\<close>

record Runtime =
  clock :: "nat \<Rightarrow> int"
  parseDate :: "string \<Rightarrow> int option"
  subtractMonths :: "int \<Rightarrow> int \<Rightarrow> int option"

text \<open>\<open>a < b\<close> on two \<open>Date\<close>s: a comparison of time values, false when either is NaN.\<close>

fun dateLess :: "int option \<Rightarrow> int option \<Rightarrow> bool" where
  "dateLess (Some a) (Some b) = (a < b)"
| "dateLess _ _ = False"

section \<open>Types (\<open>types/index.ts\<close>)\<close>

datatype DocumentCategory =
  Identity | Income | Bank_statement | Welfare_benefit | Medical | Tenancy
  | Proof_of_address | Other | Unknown

datatype DocumentProcessingStatus =
  Uploaded | Classifying | Classified | Extracting | Extracted | Validation_failed
  | Completed | ProcError

datatype ApplicationStatus =
  Draft | Documents_pending | Documents_processing | Documents_review
  | Eligibility_check | Approved | Declined

datatype ChecklistItemStatus = Missing | Pending | Verified | Issues

text \<open>\<open>string | number | boolean\<close>; \<open>null\<close> is \<open>None\<close> of \<open>scalar option\<close>.\<close>

datatype scalar = Str string | Num real | Bool bool

record ExtractedField =
  fieldValue :: "scalar option"
  fieldConfidence :: real
  fieldSource :: "string option"
  fieldIssues :: "string list option"

text \<open>\<open>dataFields\<close> is the member \<open>fields\<close>, a \<open>Record<string, ExtractedField>\<close> in the order of \<open>Object.entries\<close>.\<close>

record ExtractedDocumentData =
  documentType :: DocumentCategory
  dataConfidence :: real
  extractedAt :: string
  dataFields :: "(string \<times> ExtractedField) list"

record Document =
  docId :: string
  applicationId :: string
  originalFileName :: string
  category :: DocumentCategory
  classificationConfidence :: real
  processingStatus :: DocumentProcessingStatus
  extractedData :: "ExtractedDocumentData option"
  extractionVersion :: int
  completenessScore :: int
  completenessIssues :: "string list"
  createdAt :: string

record HouseholdMember =
  memberFirstName :: string
  memberLastName :: string
  relationship :: string
  requiresSupport :: "bool option"

record ApplicantData =
  firstName :: string
  lastName :: string
  householdSize :: int
  householdMembers :: "HouseholdMember list"

record ChecklistItem =
  required :: bool
  status :: ChecklistItemStatus
  documentIds :: "string list"
  issues :: "string list option"

record DocumentChecklistStatus =
  identity :: ChecklistItem
  income :: ChecklistItem
  bankStatements :: ChecklistItem
  proofOfAddress :: ChecklistItem
  welfareBenefit :: "ChecklistItem option"
  medicalEvidence :: "ChecklistItem option"
  tenancyAgreement :: "ChecklistItem option"

section \<open>Checklist service (\<open>checklist.service.ts\<close>)\<close>

record IdentityRequirement =
  identityRequired :: bool
  identityMinDocuments :: int
  validityCheck :: "bool option"

record IncomeRequirement =
  incomeRequired :: bool
  incomeMinDocuments :: int
  incomeMinMonthsCoverage :: "int option"

record BankStatementsRequirement =
  bankRequired :: bool
  bankMinMonthsCoverage :: int

record ProofOfAddressRequirement =
  addressRequired :: bool
  maxAgeMonths :: int

record ConditionalRequirement =
  conditionalRequired :: bool
  conditional :: "string option"

record ChecklistRequirements =
  reqIdentity :: IdentityRequirement
  reqIncome :: IncomeRequirement
  reqBankStatements :: BankStatementsRequirement
  reqProofOfAddress :: ProofOfAddressRequirement
  reqWelfareBenefit :: ConditionalRequirement
  reqMedicalEvidence :: ConditionalRequirement
  reqTenancyAgreement :: ConditionalRequirement

definition DEFAULT_REQUIREMENTS :: ChecklistRequirements where
  "DEFAULT_REQUIREMENTS = \<lparr>
     reqIdentity = \<lparr>identityRequired = True, identityMinDocuments = 1, validityCheck = Some True\<rparr>,
     reqIncome = \<lparr>incomeRequired = True, incomeMinDocuments = 1, incomeMinMonthsCoverage = Some 3\<rparr>,
     reqBankStatements = \<lparr>bankRequired = True, bankMinMonthsCoverage = 3\<rparr>,
     reqProofOfAddress = \<lparr>addressRequired = True, maxAgeMonths = 3\<rparr>,
     reqWelfareBenefit = \<lparr>conditionalRequired = False, conditional = Some ''If receiving benefits''\<rparr>,
     reqMedicalEvidence = \<lparr>conditionalRequired = False, conditional = Some ''If medical/disability needs''\<rparr>,
     reqTenancyAgreement = \<lparr>conditionalRequired = False, conditional = Some ''If currently renting''\<rparr>\<rparr>"

text \<open>\<open>groupDocumentsByCategory\<close>: a category without a group yet gets an empty one, then the document is pushed.\<close>

fun groupLoop ::
  "Document list \<Rightarrow> (DocumentCategory \<rightharpoonup> Document list) \<Rightarrow> (DocumentCategory \<rightharpoonup> Document list)" where
  "groupLoop [] groups = groups"
| "groupLoop (doc # rest) groups =
     groupLoop rest
       (groups(category doc \<mapsto>
          (case groups (category doc) of None \<Rightarrow> [] | Some g \<Rightarrow> g) @ [doc]))"

definition groupDocumentsByCategory :: "Document list \<Rightarrow> (DocumentCategory \<rightharpoonup> Document list)" where
  "groupDocumentsByCategory documents = groupLoop documents Map.empty"

text \<open>\<open>documentsByCategory.c || []\<close>\<close>

definition orEmpty :: "'a list option \<Rightarrow> 'a list" where
  "orEmpty g = (case g of None \<Rightarrow> [] | Some l \<Rightarrow> l)"

text \<open>
  \<open>doc.extractedData?.fields?.[key]\<close> with a \<open>value\<close> that is truthy and of type
  string: the string that reaches \<open>new Date(...)\<close>.
\<close>

definition stringFieldValue :: "string \<Rightarrow> Document \<Rightarrow> string option" where
  "stringFieldValue key doc =
     (case extractedData doc of
        None \<Rightarrow> None
      | Some data \<Rightarrow>
          (case map_of (dataFields data) key of
             None \<Rightarrow> None
           | Some f \<Rightarrow>
               (case fieldValue f of
                  Some (Str s) \<Rightarrow> (if s \<noteq> [] then Some s else None)
                | _ \<Rightarrow> None)))"

text \<open>
  One pass of the loop of \<open>evaluateIdentityDocuments\<close> over (issues, validDocs, clock
  reads so far). The two \<open>continue\<close>s leave the document out of \<open>validDocs\<close>.
\<close>

definition identityStep ::
  "Runtime \<Rightarrow> IdentityRequirement \<Rightarrow> Document \<Rightarrow> string list \<times> Document list \<times> nat
     \<Rightarrow> string list \<times> Document list \<times> nat" where
  "identityStep rt req doc acc =
     (case acc of (issues0, validDocs, n) \<Rightarrow>
        if processingStatus doc = ProcError \<or> processingStatus doc = Validation_failed
        then (issues0 @ [originalFileName doc @ '': Processing failed''], validDocs, n)
        else
          let issues1 =
                (if classificationConfidence doc < toDouble 0.7
                 then issues0 @ [originalFileName doc @ '': Low classification confidence'']
                 else issues0);
              incomplete = (\<lambda>is.
                 if completenessScore doc < 70
                 then is @ [originalFileName doc @ '': Incomplete data extraction (''
                            @ show_int (completenessScore doc) @ ''%)'']
                 else is)
          in
            (case (if validityCheck req = Some True then stringFieldValue ''expiryDate'' doc else None) of
               None \<Rightarrow> (incomplete issues1, validDocs @ [doc], n)
             | Some expiryValue \<Rightarrow>
                 if dateLess (parseDate rt expiryValue) (Some (clock rt n))
                 then (issues1 @ [originalFileName doc @ '': Document has expired''], validDocs, Suc n)
                 else (incomplete issues1, validDocs @ [doc], Suc n)))"

fun identityLoop ::
  "Runtime \<Rightarrow> IdentityRequirement \<Rightarrow> Document list \<Rightarrow> string list \<times> Document list \<times> nat
     \<Rightarrow> string list \<times> Document list \<times> nat" where
  "identityLoop rt req [] acc = acc"
| "identityLoop rt req (doc # rest) acc = identityLoop rt req rest (identityStep rt req doc acc)"

text \<open>\<open>issues.length > 0 ? issues : undefined\<close>\<close>

definition issuesOrUndefined :: "string list \<Rightarrow> string list option" where
  "issuesOrUndefined is = (if length is > 0 then Some is else None)"

text \<open>The second component is the number of clock reads after the call, given \<open>n\<close> before it.\<close>

definition evaluateIdentityDocuments ::
  "Runtime \<Rightarrow> ChecklistRequirements \<Rightarrow> nat \<Rightarrow> Document list \<Rightarrow> ChecklistItem \<times> nat" where
  "evaluateIdentityDocuments rt reqs n documents =
     (let req = reqIdentity reqs in
      if length documents = 0
      then (\<lparr>required = identityRequired req, status = Missing, documentIds = [],
             issues = Some [''No identity document uploaded'']\<rparr>, n)
      else
        (case identityLoop rt req documents ([], [], n) of (issues1, validDocs, n') \<Rightarrow>
           if int (length validDocs) < identityMinDocuments req
           then (\<lparr>required = identityRequired req, status = Issues,
                  documentIds = map docId documents,
                  issues = Some (if length issues1 > 0 then issues1
                                 else [''Valid identity document required''])\<rparr>, n')
           else (\<lparr>required = identityRequired req,
                  status = (if length issues1 > 0 then Pending else Verified),
                  documentIds = map docId documents,
                  issues = issuesOrUndefined issues1\<rparr>, n')))"

text \<open>The completeness loops of the other evaluators: one issue per document below the threshold.\<close>

definition completenessIssues_below :: "int \<Rightarrow> string \<Rightarrow> Document list \<Rightarrow> string list" where
  "completenessIssues_below threshold msg documents =
     concat (map (\<lambda>doc. if completenessScore doc < threshold
                         then [originalFileName doc @ msg] else []) documents)"

definition evaluateIncomeDocuments :: "ChecklistRequirements \<Rightarrow> Document list \<Rightarrow> ChecklistItem" where
  "evaluateIncomeDocuments reqs documents =
     (let req = reqIncome reqs in
      if length documents = 0
      then \<lparr>required = incomeRequired req, status = Missing, documentIds = [],
            issues = Some [''No income documents uploaded'']\<rparr>
      else
        let issues1 =
              (if int (length documents) < incomeMinDocuments req
               then [''Need at least '' @ show_int (incomeMinDocuments req) @ '' income document(s)'']
               else []);
            issues2 = issues1 @ completenessIssues_below 70 '': Missing key income information'' documents;
            issues3 =
              (case incomeMinMonthsCoverage req of
                 None \<Rightarrow> issues2
               | Some m \<Rightarrow>
                   if m \<noteq> 0 \<and> length documents > 0 \<and> int (length documents) < m
                   then issues2 @ [''Recommend '' @ show_int m
                                   @ '' months of payslips for income verification'']
                   else issues2)
        in \<lparr>required = incomeRequired req,
             status = (if length issues3 > 0 then Pending else Verified),
             documentIds = map docId documents,
             issues = issuesOrUndefined issues3\<rparr>)"

definition evaluateBankStatements :: "ChecklistRequirements \<Rightarrow> Document list \<Rightarrow> ChecklistItem" where
  "evaluateBankStatements reqs documents =
     (let req = reqBankStatements reqs in
      if length documents = 0
      then \<lparr>required = bankRequired req, status = Missing, documentIds = [],
            issues = Some [''Bank statements for the last '' @ show_int (bankMinMonthsCoverage req)
                           @ '' months required'']\<rparr>
      else
        let issues1 =
              (if int (length documents) < bankMinMonthsCoverage req
               then [show_int (bankMinMonthsCoverage req) @ '' months of statements recommended, only ''
                     @ show_nat (length documents) @ '' provided'']
               else []);
            issues2 = issues1 @ completenessIssues_below 60 '': Key statement details missing'' documents
        in \<lparr>required = bankRequired req,
             status = (if length issues2 > 0 then Pending else Verified),
             documentIds = map docId documents,
             issues = issuesOrUndefined issues2\<rparr>)"

text \<open>One pass of the age loop of \<open>evaluateProofOfAddress\<close> over (issues, clock reads so far).\<close>

definition addressStep ::
  "Runtime \<Rightarrow> ProofOfAddressRequirement \<Rightarrow> Document \<Rightarrow> string list \<times> nat \<Rightarrow> string list \<times> nat" where
  "addressStep rt req doc acc =
     (case acc of (issues0, n) \<Rightarrow>
        (case stringFieldValue ''documentDate'' doc of
           None \<Rightarrow> (issues0, n)
         | Some dateValue \<Rightarrow>
             if dateLess (parseDate rt dateValue) (subtractMonths rt (clock rt n) (maxAgeMonths req))
             then (issues0 @ [originalFileName doc @ '': Document is older than ''
                              @ show_int (maxAgeMonths req) @ '' months''], Suc n)
             else (issues0, Suc n)))"

fun addressLoop ::
  "Runtime \<Rightarrow> ProofOfAddressRequirement \<Rightarrow> Document list \<Rightarrow> string list \<times> nat \<Rightarrow> string list \<times> nat" where
  "addressLoop rt req [] acc = acc"
| "addressLoop rt req (doc # rest) acc = addressLoop rt req rest (addressStep rt req doc acc)"

definition evaluateProofOfAddress ::
  "Runtime \<Rightarrow> ChecklistRequirements \<Rightarrow> nat \<Rightarrow> Document list \<Rightarrow> ChecklistItem \<times> nat" where
  "evaluateProofOfAddress rt reqs n documents =
     (let req = reqProofOfAddress reqs in
      if length documents = 0
      then (\<lparr>required = addressRequired req, status = Missing, documentIds = [],
             issues = Some [''Proof of current address required (utility bill, council tax, etc.)'']\<rparr>, n)
      else
        (case addressLoop rt req documents ([], n) of (issues1, n') \<Rightarrow>
           (\<lparr>required = addressRequired req,
             status = (if length issues1 > 0 then Pending else Verified),
             documentIds = map docId documents,
             issues = issuesOrUndefined issues1\<rparr>, n')))"

definition evaluateWelfareBenefit ::
  "ChecklistRequirements \<Rightarrow> Document list \<Rightarrow> ApplicantData option \<Rightarrow> ChecklistItem" where
  "evaluateWelfareBenefit reqs documents applicantData =
     (let req = reqWelfareBenefit reqs;
          isRequired = conditionalRequired req
      in
      if length documents = 0
      then \<lparr>required = isRequired, status = Missing, documentIds = [],
            issues = (if isRequired then Some [''Benefits documentation required''] else None)\<rparr>
      else
        let issues1 = completenessIssues_below 70 '': Missing benefit details'' documents
        in \<lparr>required = isRequired,
             status = (if length issues1 > 0 then Pending else Verified),
             documentIds = map docId documents,
             issues = issuesOrUndefined issues1\<rparr>)"

text \<open>\<open>applicantData?.householdMembers?.some((m) => m.requiresSupport) || false\<close>\<close>

definition needsMedicalEvidence :: "ApplicantData option \<Rightarrow> bool" where
  "needsMedicalEvidence applicantData =
     (case applicantData of
        None \<Rightarrow> False
      | Some a \<Rightarrow> list_ex (\<lambda>m. requiresSupport m = Some True) (householdMembers a))"

definition evaluateMedicalEvidence ::
  "ChecklistRequirements \<Rightarrow> Document list \<Rightarrow> ApplicantData option \<Rightarrow> ChecklistItem" where
  "evaluateMedicalEvidence reqs documents applicantData =
     (let req = reqMedicalEvidence reqs;
          isRequired = (conditionalRequired req \<or> needsMedicalEvidence applicantData)
      in
      if length documents = 0
      then \<lparr>required = isRequired, status = Missing, documentIds = [],
            issues = (if isRequired
                      then Some [''Medical evidence required for support needs assessment'']
                      else None)\<rparr>
      else \<lparr>required = isRequired, status = Verified,
            documentIds = map docId documents, issues = None\<rparr>)"

definition evaluateTenancy ::
  "ChecklistRequirements \<Rightarrow> Document list \<Rightarrow> ApplicantData option \<Rightarrow> ChecklistItem" where
  "evaluateTenancy reqs documents applicantData =
     (let req = reqTenancyAgreement reqs in
      if length documents = 0
      then \<lparr>required = conditionalRequired req, status = Missing, documentIds = [],
            issues = (if conditionalRequired req
                      then Some [''Current tenancy agreement required''] else None)\<rparr>
      else
        let issues1 = completenessIssues_below 60 '': Missing tenancy details'' documents
        in \<lparr>required = conditionalRequired req,
             status = (if length issues1 > 0 then Pending else Verified),
             documentIds = map docId documents,
             issues = issuesOrUndefined issues1\<rparr>)"

text \<open>
  \<open>evaluateChecklist\<close>. The object literal evaluates its members in order, so the clock
  reads of the identity evaluator come before those of the proof-of-address evaluator.
\<close>

definition evaluateChecklist ::
  "Runtime \<Rightarrow> ChecklistRequirements \<Rightarrow> Document list \<Rightarrow> ApplicantData option
     \<Rightarrow> DocumentChecklistStatus" where
  "evaluateChecklist rt reqs documents applicantData =
     (let documentsByCategory = groupDocumentsByCategory documents;
          (identityItem, n1) =
             evaluateIdentityDocuments rt reqs 0 (orEmpty (documentsByCategory Identity));
          (addressItem, n2) =
             evaluateProofOfAddress rt reqs n1 (orEmpty (documentsByCategory Proof_of_address))
      in \<lparr>identity = identityItem,
           income = evaluateIncomeDocuments reqs (orEmpty (documentsByCategory Income)),
           bankStatements = evaluateBankStatements reqs (orEmpty (documentsByCategory Bank_statement)),
           proofOfAddress = addressItem,
           welfareBenefit =
             Some (evaluateWelfareBenefit reqs (orEmpty (documentsByCategory Welfare_benefit)) applicantData),
           medicalEvidence =
             Some (evaluateMedicalEvidence reqs (orEmpty (documentsByCategory Medical)) applicantData),
           tenancyAgreement =
             Some (evaluateTenancy reqs (orEmpty (documentsByCategory Tenancy)) applicantData)\<rparr>)"

text \<open>\<open>Object.entries(checklistStatus)\<close>: the members in declaration order.\<close>

definition checklistEntries :: "DocumentChecklistStatus \<Rightarrow> (string \<times> ChecklistItem option) list" where
  "checklistEntries cs =
     [(''identity'', Some (identity cs)),
      (''income'', Some (income cs)),
      (''bankStatements'', Some (bankStatements cs)),
      (''proofOfAddress'', Some (proofOfAddress cs)),
      (''welfareBenefit'', welfareBenefit cs),
      (''medicalEvidence'', medicalEvidence cs),
      (''tenancyAgreement'', tenancyAgreement cs)]"

text \<open>One pass of the loop of \<open>calculateOverallCompleteness\<close> over (totalWeight, achievedWeight).\<close>

definition completenessStep :: "ChecklistItem option \<Rightarrow> real \<times> real \<Rightarrow> real \<times> real" where
  "completenessStep item acc =
     (case acc of (totalWeight, achievedWeight) \<Rightarrow>
        (case item of
           None \<Rightarrow> acc
         | Some it \<Rightarrow>
             let weight = (if required it then 2 else 1) in
             if \<not> required it \<and> status it = Missing then acc
             else
               (dadd totalWeight weight,
                (case status it of
                   Verified \<Rightarrow> dadd achievedWeight weight
                 | Pending \<Rightarrow> dadd achievedWeight (dmul weight 0.5)
                 | Issues \<Rightarrow> dadd achievedWeight (dmul weight 0.25)
                 | Missing \<Rightarrow> achievedWeight))))"

fun completenessLoop :: "(string \<times> ChecklistItem option) list \<Rightarrow> real \<times> real \<Rightarrow> real \<times> real" where
  "completenessLoop [] acc = acc"
| "completenessLoop ((key, item) # rest) acc = completenessLoop rest (completenessStep item acc)"

text \<open>
  The body of \<open>calculateOverallCompleteness\<close> on the entries of any object:
  \<open>Math.round((achievedWeight / totalWeight) * 100)\<close>, the quotient rounded to a double
  before it is multiplied.
\<close>

definition completenessOfEntries :: "(string \<times> ChecklistItem option) list \<Rightarrow> int" where
  "completenessOfEntries items =
     (case completenessLoop items (0, 0) of (totalWeight, achievedWeight) \<Rightarrow>
        if totalWeight > 0 then round (dmul (ddiv achievedWeight totalWeight) 100) else 0)"

definition calculateOverallCompleteness :: "DocumentChecklistStatus \<Rightarrow> int" where
  "calculateOverallCompleteness checklistStatus = completenessOfEntries (checklistEntries checklistStatus)"





text \<open>The identifiers listed in the items of a checklist status.\<close>

definition itemIds :: "ChecklistItem option \<Rightarrow> string list" where
  "itemIds item = (case item of None \<Rightarrow> [] | Some it \<Rightarrow> documentIds it)"

definition allDocumentIds :: "DocumentChecklistStatus \<Rightarrow> string list" where
  "allDocumentIds cs = concat (map (\<lambda>(key, item). itemIds item) (checklistEntries cs))"

text \<open>A document that the classification left without a checklist category.\<close>

definition uncategorised :: "Document \<Rightarrow> bool" where
  "uncategorised doc = (category doc = Other \<or> category doc = Unknown)"

text \<open>
  The completeness-threshold pattern of the specification: pending when the completeness
  score of some document is below the threshold, verified otherwise.
\<close>

definition spec_thresholdStatus :: "int \<Rightarrow> Document list \<Rightarrow> ChecklistItemStatus" where
  "spec_thresholdStatus threshold documents =
     (if list_ex (\<lambda>doc. completenessScore doc < threshold) documents then Pending else Verified)"

subsection \<open>The completeness formula in the words of the specification\<close>

text \<open>
  Required items weigh 2 and optional items 1; an optional item that is missing is left
  out of both sums; verified earns the full weight, pending half, issues a quarter,
  missing nothing.
\<close>

definition spec_weight :: "ChecklistItem \<Rightarrow> real" where
  "spec_weight it = (if required it then 2 else 1)"

definition spec_credit :: "ChecklistItem \<Rightarrow> real" where
  "spec_credit it =
     (case status it of Verified \<Rightarrow> 1 | Pending \<Rightarrow> 1 / 2 | Issues \<Rightarrow> 1 / 4 | Missing \<Rightarrow> 0)"

definition spec_counted :: "ChecklistItem \<Rightarrow> bool" where
  "spec_counted it = (required it \<or> status it \<noteq> Missing)"

definition presentItems :: "(string \<times> ChecklistItem option) list \<Rightarrow> ChecklistItem list" where
  "presentItems items = concat (map (\<lambda>(key, item). case item of None \<Rightarrow> [] | Some it \<Rightarrow> [it]) items)"

definition spec_totalWeight :: "ChecklistItem list \<Rightarrow> real" where
  "spec_totalWeight its = sum_list (map spec_weight (filter spec_counted its))"

definition spec_achievedWeight :: "ChecklistItem list \<Rightarrow> real" where
  "spec_achievedWeight its =
     sum_list (map (\<lambda>it. spec_weight it * spec_credit it) (filter spec_counted its))"

definition spec_completeness :: "ChecklistItem list \<Rightarrow> int" where
  "spec_completeness its =
     (if spec_totalWeight its = 0 then 0
      else round (100 * spec_achievedWeight its / spec_totalWeight its))"

section \<open>Classification service (\<open>classification.service.ts\<close>)\<close>

record AlternativeCategory =
  altCategory :: DocumentCategory
  altConfidence :: real

text \<open>
  \<open>ClassificationResult\<close>. The member \<open>confidence\<close> has type \<open>'n\<close>: \<^typ>\<open>real\<close> for a
  page result, a double that \<open>validateClassificationResult\<close> has clamped to [0,1],
  and \<^typ>\<open>real option\<close> for a result of the aggregation, where \<open>None\<close> is the NaN of
  the division 0 / 0.
\<close>

record 'n ClassificationResult =
  resultCategory :: DocumentCategory
  resultConfidence :: 'n
  subtype :: "string option"
  reasoning :: string
  alternativeCategories :: "AlternativeCategory list option"

text \<open>\<open>Map.prototype.set\<close>: a known key keeps its place, a new key goes to the end.\<close>

fun mapSet :: "'k \<Rightarrow> 'v \<Rightarrow> ('k \<times> 'v) list \<Rightarrow> ('k \<times> 'v) list" where
  "mapSet k v [] = [(k, v)]"
| "mapSet k v ((k', v') # rest) =
     (if k' = k then (k, v) # rest else (k', v') # mapSet k v rest)"

text \<open>\<open>categoryScores.get(c) || 0\<close>\<close>

definition getOrZero :: "('k \<times> real) list \<Rightarrow> 'k \<Rightarrow> real" where
  "getOrZero m k = (case map_of m k of None \<Rightarrow> 0 | Some s \<Rightarrow> s)"

fun scoreLoop ::
  "real ClassificationResult list \<Rightarrow> (DocumentCategory \<times> real) list \<Rightarrow> (DocumentCategory \<times> real) list" where
  "scoreLoop [] categoryScores = categoryScores"
| "scoreLoop (result # rest) categoryScores =
     scoreLoop rest
       (mapSet (resultCategory result)
          (dadd (getOrZero categoryScores (resultCategory result)) (resultConfidence result))
          categoryScores)"

fun bestLoop ::
  "(DocumentCategory \<times> real) list \<Rightarrow> DocumentCategory \<times> real \<Rightarrow> DocumentCategory \<times> real" where
  "bestLoop [] best = best"
| "bestLoop ((cat, score) # rest) (bestCategory, bestScore) =
     (if score > bestScore then bestLoop rest (cat, score)
      else bestLoop rest (bestCategory, bestScore))"

text \<open>
  \<open>xs.sort((a, b) => b.confidence - a.confidence)\<close>: the built-in sort is stable, so
  equal confidences keep their order.
\<close>

definition sortByConfidenceDesc :: "('a \<Rightarrow> real) \<Rightarrow> 'a list \<Rightarrow> 'a list" where
  "sortByConfidenceDesc conf xs = sort_key (\<lambda>x. - conf x) xs"

definition getAlternativeCategories ::
  "(DocumentCategory \<times> real) list \<Rightarrow> DocumentCategory \<Rightarrow> AlternativeCategory list" where
  "getAlternativeCategories categoryScores bestCategory =
     (let alternatives =
            map (\<lambda>(cat, score). \<lparr>altCategory = cat, altConfidence = min score 1\<rparr>)
              (filter (\<lambda>(cat, score). cat \<noteq> bestCategory \<and> score > toDouble 0.3) categoryScores)
      in take 2 (sortByConfidenceDesc altConfidence alternatives))"

definition aggregateClassifications ::
  "real ClassificationResult list \<Rightarrow> real option ClassificationResult" where
  "aggregateClassifications results =
     (let categoryScores = scoreLoop results [];
          (bestCategory, bestScore) = bestLoop categoryScores (Unknown, 0);
          relevantResults = filter (\<lambda>r. resultCategory r = bestCategory) results;
          avgConfidence =
            (if length relevantResults = 0 then None
             else Some (ddiv (foldl (\<lambda>sum r. dadd sum (resultConfidence r)) 0 relevantResults)
                             (real (length relevantResults))));
          bestResult =
            (case sortByConfidenceDesc resultConfidence relevantResults of
               [] \<Rightarrow> None
             | r # _ \<Rightarrow> Some r)
      in \<lparr>resultCategory = bestCategory,
           resultConfidence = avgConfidence,
           subtype = (case bestResult of None \<Rightarrow> None | Some r \<Rightarrow> subtype r),
           reasoning = ''Aggregated from '' @ show_nat (length results) @ '' pages. ''
                       @ (case bestResult of None \<Rightarrow> [] | Some r \<Rightarrow> reasoning r),
           alternativeCategories = Some (getAlternativeCategories categoryScores bestCategory)\<rparr>)"

text \<open>A page result returned as it is: its confidence is a number.\<close>

definition unchanged :: "real ClassificationResult \<Rightarrow> real option ClassificationResult" where
  "unchanged r =
     \<lparr>resultCategory = resultCategory r, resultConfidence = Some (resultConfidence r),
      subtype = subtype r, reasoning = reasoning r,
      alternativeCategories = alternativeCategories r\<rparr>"

text \<open>
  \<open>classifyPdfDocument\<close>. \<open>classifyDocument\<close> calls the external model; \<open>pageResults ! i\<close>
  is what it returns for page \<open>i\<close> (it never throws). Only the first
  \<open>min(pages.length, 3)\<close> pages are classified.
\<close>

definition classifyPdfDocument ::
  "real ClassificationResult list \<Rightarrow> real option ClassificationResult" where
  "classifyPdfDocument pageResults =
     (case pageResults of
        [] \<Rightarrow> \<lparr>resultCategory = Unknown, resultConfidence = Some 0, subtype = None,
               reasoning = ''No pages provided for classification'',
               alternativeCategories = None\<rparr>
      | firstPageResult # _ \<Rightarrow>
          if resultConfidence firstPageResult \<ge> toDouble 0.85 \<or> length pageResults = 1
          then unchanged firstPageResult
          else aggregateClassifications (take (min (length pageResults) 3) pageResults))"

subsection \<open>The aggregation in the words of the specification\<close>

text \<open>The summed confidence of a category: the confidences of its pages added up in page order.\<close>

definition summedScore :: "real ClassificationResult list \<Rightarrow> DocumentCategory \<Rightarrow> real" where
  "summedScore results c =
     foldl dadd 0 (map resultConfidence (filter (\<lambda>r. resultCategory r = c) results))"

text \<open>The categories of the pages, each at its first appearance.\<close>

fun firstAppearances :: "'a list \<Rightarrow> 'a list" where
  "firstAppearances [] = []"
| "firstAppearances (x # xs) = x # filter (\<lambda>y. y \<noteq> x) (firstAppearances xs)"

text \<open>The first page whose confidence no page of the list exceeds.\<close>

definition firstMostConfident :: "real ClassificationResult list \<Rightarrow> real ClassificationResult option" where
  "firstMostConfident rs =
     find (\<lambda>r. list_all (\<lambda>r'. resultConfidence r' \<le> resultConfidence r) rs) rs"

text \<open>
  The tie-break as the specification words it: of the categories with the highest summed
  confidence, the first in the declaration order of \<open>DocumentCategory\<close>.
\<close>

definition declarationOrder :: "DocumentCategory list" where
  "declarationOrder =
     [Identity, Income, Bank_statement, Welfare_benefit, Medical, Tenancy, Proof_of_address,
      Other, Unknown]"

definition spec_claimedCategory :: "real ClassificationResult list \<Rightarrow> DocumentCategory option" where
  "spec_claimedCategory results =
     find (\<lambda>c. list_all (\<lambda>c'. summedScore results c' \<le> summedScore results c) declarationOrder)
       declarationOrder"

section \<open>Extraction service (\<open>extraction.service.ts\<close>)\<close>

datatype Severity = SevError | SevWarning | SevInfo

record ExtractionIssue =
  issueField :: string
  severity :: Severity
  message :: string
  suggestion :: "string option"

record ExtractionResult =
  success :: bool
  resultDocumentType :: DocumentCategory
  resultFields :: "(string \<times> ExtractedField) list"
  resultCompletenessScore :: int
  resultIssues :: "ExtractionIssue list"

definition REQUIRED_FIELDS :: "DocumentCategory \<Rightarrow> string list" where
  "REQUIRED_FIELDS cat =
     (case cat of
        Identity \<Rightarrow> [''fullName'', ''dateOfBirth'', ''documentNumber'', ''expiryDate'']
      | Income \<Rightarrow> [''employerName'', ''employeeName'', ''grossPay'', ''netPay'', ''payDate'']
      | Bank_statement \<Rightarrow> [''bankName'', ''accountHolder'', ''statementPeriodStart'', ''closingBalance'']
      | Welfare_benefit \<Rightarrow> [''benefitType'', ''recipientName'', ''awardAmount'', ''letterDate'', ''issuingBody'']
      | Medical \<Rightarrow> [''issuerName'', ''patientName'', ''letterDate'']
      | Tenancy \<Rightarrow> [''tenantName'', ''propertyAddress'', ''landlordName'']
      | Proof_of_address \<Rightarrow> [''recipientName'', ''address'', ''documentDate'', ''issuer'']
      | Other \<Rightarrow> [''documentDescription'']
      | Unknown \<Rightarrow> [''qualityIssues''])"


definition extractionThreshold :: real where
  "extractionThreshold = 0.6"

text \<open>
  One member of the parsed reply. The branch \<open>typeof value === 'object' && 'value' in value\<close>
  casts the object to \<open>ExtractedField\<close>; \<open>RawField\<close> holds its members at their
  declared types, each possibly absent. \<open>RawScalar\<close> is any other value.
\<close>

record RawField =
  rawValue :: "scalar option"
  rawConfidence :: "real option"
  rawSource :: "string option"
  rawIssues :: "string list option"

datatype RawValue = RawNull | RawObject RawField | RawScalar scalar

text \<open>\<open>Math.max(0, Math.min(1, c || 0.5))\<close>: an absent confidence and the number 0 are both falsy.\<close>

definition confidenceOrDefault :: "real option \<Rightarrow> real" where
  "confidenceOrDefault c =
     max 0 (min 1 (case c of None \<Rightarrow> 0.5 | Some x \<Rightarrow> (if x = 0 then 0.5 else x)))"

definition processField :: "RawValue \<Rightarrow> ExtractedField" where
  "processField v =
     (case v of
        RawNull \<Rightarrow>
          \<lparr>fieldValue = None, fieldConfidence = 0, fieldSource = None, fieldIssues = None\<rparr>
      | RawObject fieldData \<Rightarrow>
          \<lparr>fieldValue = rawValue fieldData,
           fieldConfidence = confidenceOrDefault (rawConfidence fieldData),
           fieldSource = rawSource fieldData,
           fieldIssues = rawIssues fieldData\<rparr>
      | RawScalar s \<Rightarrow>
          \<lparr>fieldValue = Some s, fieldConfidence = 0.7, fieldSource = None, fieldIssues = None\<rparr>)"

definition processExtractedFields :: "(string \<times> RawValue) list \<Rightarrow> (string \<times> ExtractedField) list" where
  "processExtractedFields rawExtraction = map (\<lambda>(key, v). (key, processField v)) rawExtraction"

text \<open>\<open>formatFieldName\<close>, on ASCII names.\<close>

definition isUpperAZ :: "char \<Rightarrow> bool" where
  "isUpperAZ c = (c \<in> set ''ABCDEFGHIJKLMNOPQRSTUVWXYZ'')"

definition toUpperCaseChar :: "char \<Rightarrow> char" where
  "toUpperCaseChar c =
     (case map_of (zip ''abcdefghijklmnopqrstuvwxyz'' ''ABCDEFGHIJKLMNOPQRSTUVWXYZ'') c of
        None \<Rightarrow> c
      | Some u \<Rightarrow> u)"

definition isSpaceChar :: "char \<Rightarrow> bool" where
  "isSpaceChar c = (c \<in> set [CHR '' '', CHR 0x09, CHR 0x0A, CHR 0x0B, CHR 0x0C, CHR 0x0D])"

definition trim :: "string \<Rightarrow> string" where
  "trim s = rev (dropWhile isSpaceChar (rev (dropWhile isSpaceChar s)))"

definition formatFieldName :: "string \<Rightarrow> string" where
  "formatFieldName fieldName =
     (let s1 = concat (map (\<lambda>c. if isUpperAZ c then [CHR '' '', c] else [c]) fieldName);
          s2 = map (\<lambda>c. if c = CHR ''_'' then CHR '' '' else c) s1;
          s3 = (case s2 of [] \<Rightarrow> [] | c # cs \<Rightarrow> toUpperCaseChar c # cs)
      in trim s3)"

definition suggestions :: "DocumentCategory \<Rightarrow> (string \<times> string) list" where
  \<open>suggestions cat =
     (case cat of
        Identity \<Rightarrow>
          [(''fullName'', ''Check the main page of the identity document''),
           (''dateOfBirth'', ''Usually found near the photo''),
           (''documentNumber'', ''Located at the top or bottom of the document''),
           (''expiryDate'', ''Check the document validity section'')]
      | Income \<Rightarrow>
          [(''employerName'', ''Should be at the top of the payslip''),
           (''grossPay'', ''Look for "Gross Pay" or "Total Earnings"''),
           (''netPay'', ''Look for "Net Pay" or "Take Home Pay"'')]
      | Bank_statement \<Rightarrow>
          [(''bankName'', ''Usually in the header/logo area''),
           (''closingBalance'', ''Found at the end of the statement'')]
      | Welfare_benefit \<Rightarrow>
          [(''awardAmount'', ''Look for the payment amount section''),
           (''benefitType'', ''Usually stated at the top of the letter'')]
      | _ \<Rightarrow> [])\<close>

definition getFieldSuggestion :: "string \<Rightarrow> DocumentCategory \<Rightarrow> string" where
  "getFieldSuggestion fieldName cat =
     (case map_of (suggestions cat) fieldName of
        None \<Rightarrow> ''Please upload a clearer image of this section''
      | Some s \<Rightarrow> s)"

text \<open>
  One pass of the first loop of \<open>checkCompleteness\<close> over (issues, filledRequired).
  \<open>threshold\<close> is \<open>config.documents.extractionThreshold\<close>.
\<close>

definition requiredStep ::
  "real \<Rightarrow> (string \<times> ExtractedField) list \<Rightarrow> DocumentCategory \<Rightarrow> string
     \<Rightarrow> ExtractionIssue list \<times> real \<Rightarrow> ExtractionIssue list \<times> real" where
  \<open>requiredStep threshold fs cat fieldName acc =
     (case acc of (issues0, filledRequired) \<Rightarrow>
        (case map_of fs fieldName of
           None \<Rightarrow>
             (issues0 @ [\<lparr>issueField = fieldName, severity = SevError,
                          message = ''Required field "'' @ formatFieldName fieldName @ ''" is missing'',
                          suggestion = Some (getFieldSuggestion fieldName cat)\<rparr>],
              filledRequired)
         | Some field \<Rightarrow>
             if fieldValue field = None \<or> fieldValue field = Some (Str [])
             then (issues0 @ [\<lparr>issueField = fieldName, severity = SevError,
                          message = ''Required field "'' @ formatFieldName fieldName @ ''" is missing'',
                          suggestion = Some (getFieldSuggestion fieldName cat)\<rparr>],
                   filledRequired)
             else if fieldConfidence field < threshold
             then (issues0 @ [\<lparr>issueField = fieldName, severity = SevWarning,
                          message = ''Field "'' @ formatFieldName fieldName @ ''" has low confidence (''
                                    @ show_int (round (fieldConfidence field * 100)) @ ''%)'',
                          suggestion = Some ''Please verify this value manually''\<rparr>],
                   filledRequired + 0.5)
             else (issues0, filledRequired + 1)))\<close>

fun requiredLoop ::
  "real \<Rightarrow> (string \<times> ExtractedField) list \<Rightarrow> DocumentCategory \<Rightarrow> string list
     \<Rightarrow> ExtractionIssue list \<times> real \<Rightarrow> ExtractionIssue list \<times> real" where
  "requiredLoop threshold fs cat [] acc = acc"
| "requiredLoop threshold fs cat (fieldName # rest) acc =
     requiredLoop threshold fs cat rest (requiredStep threshold fs cat fieldName acc)"

text \<open>The second loop: one warning per entry of a field's own \<open>issues\<close>.\<close>

definition fieldIssueWarnings :: "(string \<times> ExtractedField) list \<Rightarrow> ExtractionIssue list" where
  "fieldIssueWarnings fs =
     concat (map (\<lambda>(fieldName, field).
        (case fieldIssues field of
           None \<Rightarrow> []
         | Some is \<Rightarrow>
             map (\<lambda>issue. \<lparr>issueField = fieldName, severity = SevWarning,
                            message = issue, suggestion = None\<rparr>) is)) fs)"

definition checkCompleteness ::
  "real \<Rightarrow> (string \<times> ExtractedField) list \<Rightarrow> string list \<Rightarrow> DocumentCategory
     \<Rightarrow> int \<times> ExtractionIssue list" where
  "checkCompleteness threshold fs requiredFields cat =
     (let totalRequired = length requiredFields in
      case requiredLoop threshold fs cat requiredFields ([], 0) of
        (issues1, filledRequired) \<Rightarrow>
          (if totalRequired > 0
           then round ((filledRequired / real totalRequired) * 100)
           else 100,
           issues1 @ fieldIssueWarnings fs))"

text \<open>What a \<open>catch\<close> receives: an \<open>Error\<close> with its message, or any other thrown value.\<close>

datatype thrown = ErrorInstance string | OtherThrown

text \<open>\<open>error instanceof Error ? error.message : 'Unknown error'\<close>\<close>

definition errorMessage :: "thrown \<Rightarrow> string" where
  "errorMessage e = (case e of ErrorInstance m \<Rightarrow> m | OtherThrown \<Rightarrow> ''Unknown error'')"

text \<open>
  The outcome of the model call and of \<open>JSON.parse\<close> on its content: the call throws,
  the reply has no content, parsing (or reading the parsed value) throws, or the reply
  parses to an object with these entries.
\<close>

datatype ModelReply =
  CallThrows thrown
  | NoContent
  | ParseThrows thrown
  | Parsed "(string \<times> RawValue) list"

text \<open>The \<open>try\<close> block of \<open>extractDocument\<close>: \<open>Inl\<close> is a thrown value.\<close>

definition extractDocument_try :: "ModelReply \<Rightarrow> DocumentCategory \<Rightarrow> thrown + ExtractionResult" where
  "extractDocument_try reply cat =
     (case reply of
        CallThrows e \<Rightarrow> Inl e
      | NoContent \<Rightarrow> Inl (ErrorInstance ''No response from extraction model'')
      | ParseThrows e \<Rightarrow> Inl e
      | Parsed rawExtraction \<Rightarrow>
          let fs = processExtractedFields rawExtraction;
              (score, issues1) = checkCompleteness extractionThreshold fs (REQUIRED_FIELDS cat) cat
          in Inr \<lparr>success = True, resultDocumentType = cat, resultFields = fs,
                   resultCompletenessScore = score, resultIssues = issues1\<rparr>)"

text \<open>\<open>extractDocument\<close>: the \<open>catch\<close> turns every thrown value into a result.\<close>

definition extractDocument :: "ModelReply \<Rightarrow> DocumentCategory \<Rightarrow> thrown + ExtractionResult" where
  "extractDocument reply cat =
     (case extractDocument_try reply cat of
        Inr result \<Rightarrow> Inr result
      | Inl error \<Rightarrow>
          Inr \<lparr>success = False, resultDocumentType = cat, resultFields = [],
                resultCompletenessScore = 0,
                resultIssues =
                  [\<lparr>issueField = ''_general'', severity = SevError,
                    message = ''Extraction failed: '' @ errorMessage error,
                    suggestion = None\<rparr>]\<rparr>)"


subsection \<open>The completeness score in the words of the specification\<close>

text \<open>
  A required field is missing when it has no entry, a null value or an empty string;
  otherwise it is fully present when its confidence reaches the threshold and present
  with low confidence when it does not. The three states earn 0, 1 and 1/2 points.
\<close>

datatype FieldState = FieldMissing | FieldLowConfidence | FieldPresent

definition spec_fieldState :: "real \<Rightarrow> (string \<times> ExtractedField) list \<Rightarrow> string \<Rightarrow> FieldState" where
  "spec_fieldState threshold fs fieldName =
     (case map_of fs fieldName of
        None \<Rightarrow> FieldMissing
      | Some f \<Rightarrow>
          if fieldValue f = None \<or> fieldValue f = Some (Str []) then FieldMissing
          else if fieldConfidence f \<ge> threshold then FieldPresent
          else FieldLowConfidence)"

definition spec_points :: "FieldState \<Rightarrow> real" where
  "spec_points st = (case st of FieldMissing \<Rightarrow> 0 | FieldLowConfidence \<Rightarrow> 1 / 2 | FieldPresent \<Rightarrow> 1)"

definition spec_pointsEarned :: "real \<Rightarrow> (string \<times> ExtractedField) list \<Rightarrow> string list \<Rightarrow> real" where
  "spec_pointsEarned threshold fs requiredFields =
     sum_list (map (\<lambda>fieldName. spec_points (spec_fieldState threshold fs fieldName)) requiredFields)"

text \<open>The field and severity of the issue a required field raises, if any.\<close>

definition spec_requiredIssue :: "real \<Rightarrow> (string \<times> ExtractedField) list \<Rightarrow> string \<Rightarrow> (string \<times> Severity) list" where
  "spec_requiredIssue threshold fs fieldName =
     (case spec_fieldState threshold fs fieldName of
        FieldMissing \<Rightarrow> [(fieldName, SevError)]
      | FieldLowConfidence \<Rightarrow> [(fieldName, SevWarning)]
      | FieldPresent \<Rightarrow> [])"

definition issueKind :: "ExtractionIssue \<Rightarrow> string \<times> Severity" where
  "issueKind i = (issueField i, severity i)"


section \<open>Repositories (\<open>database/repositories.ts\<close>)\<close>

text \<open>The table \<open>sequences(name PRIMARY KEY, current_value)\<close>.\<close>

type_synonym sequences = "string \<rightharpoonup> int"

text \<open>
  \<open>UPDATE sequences SET current_value = current_value + 1 WHERE name = ?\<close>: the new
  table and the number of rows changed.
\<close>

definition incrementSequence :: "string \<Rightarrow> sequences \<Rightarrow> sequences \<times> nat" where
  "incrementSequence name seqs =
     (case seqs name of
        None \<Rightarrow> (seqs, 0)
      | Some v \<Rightarrow> (seqs(name \<mapsto> v + 1), 1))"

text \<open>
  The transaction \<open>getNextSequence\<close>. After an update that changed a row the
  \<open>SELECT\<close> finds that row; the \<open>None\<close> case of the lookup cannot occur and stands
  for the \<open>undefined\<close> row.
\<close>

definition getNextSequence :: "string \<Rightarrow> sequences \<Rightarrow> int option \<times> sequences" where
  "getNextSequence sequenceName seqs =
     (case incrementSequence sequenceName seqs of (seqs1, changes) \<Rightarrow>
        if changes = 0 then (Some 1, seqs1(sequenceName \<mapsto> 1))
        else (seqs1 sequenceName, seqs1))"

text \<open>
  \<open>generateReferenceNumber\<close>; \<open>year\<close> is what \<open>new Date().getFullYear()\<close> reads.
  Reading \<open>current_value\<close> of an \<open>undefined\<close> row throws a \<open>TypeError\<close>.
\<close>

definition generateReferenceNumber :: "int \<Rightarrow> sequences \<Rightarrow> (thrown + string) \<times> sequences" where
  "generateReferenceNumber year seqs =
     (let sequenceName = ''ref_number_'' @ show_int year in
      case getNextSequence sequenceName seqs of
        (None, seqs1) \<Rightarrow>
          (Inl (ErrorInstance ''Cannot read properties of undefined''), seqs1)
      | (Some sequenceNumber, seqs1) \<Rightarrow>
          (Inr (''SH-'' @ show_int year @ ''-'' @ padStart 4 (CHR ''0'') (show_int sequenceNumber)),
           seqs1))"

text \<open>
  \<open>n\<close> case creations one after the other in the year \<open>year\<close>: each calls
  \<open>generateReferenceNumber\<close> once. The result is the reference numbers in the order of
  creation and the table afterwards.
\<close>

fun sequentialCreations :: "int \<Rightarrow> nat \<Rightarrow> sequences \<Rightarrow> (thrown + string) list \<times> sequences" where
  "sequentialCreations year 0 seqs = ([], seqs)"
| "sequentialCreations year (Suc n) seqs =
     (case generateReferenceNumber year seqs of (ref, seqs1) \<Rightarrow>
        (case sequentialCreations year n seqs1 of (refs, seqs2) \<Rightarrow> (ref # refs, seqs2)))"

text \<open>The reference number of the specification: \<open>SH-<year>-<sequence, at least 4 digits>\<close>.\<close>

definition spec_referenceNumber :: "int \<Rightarrow> nat \<Rightarrow> string" where
  "spec_referenceNumber year k = ''SH-'' @ show_int year @ ''-'' @ padStart 4 (CHR ''0'') (show_nat k)"

text \<open>Reading a decimal numeral back, for the proof that reference numbers differ.\<close>

definition digit_value :: "char \<Rightarrow> nat" where
  "digit_value c = (case map_of (zip ''0123456789'' [0, 1, 2, 3, 4, 5, 6, 7, 8, 9]) c of
                      None \<Rightarrow> 0 | Some d \<Rightarrow> d)"

definition read_nat :: "string \<Rightarrow> nat" where
  "read_nat s = foldl (\<lambda>acc c. 10 * acc + digit_value c) 0 s"


subsection \<open>The tables \<open>applications\<close> and \<open>documents\<close>\<close>












section \<open>Document service (\<open>document.service.ts\<close>)\<close>









subsection \<open>The status of the case in the words of the specification\<close>




section \<open>Verification\<close>

subsection \<open>Extraction completeness\<close>

lemma requiredStep_spec:
  "requiredStep threshold fs cat fieldName (is0, filled) = (is1, filled1) \<Longrightarrow>
     map issueKind is1 = map issueKind is0 @ spec_requiredIssue threshold fs fieldName
     \<and> filled1 = filled + spec_points (spec_fieldState threshold fs fieldName)"
  by (auto simp: requiredStep_def spec_requiredIssue_def spec_fieldState_def spec_points_def
        issueKind_def split: option.splits if_splits)

lemma requiredLoop_spec:
  "requiredLoop threshold fs cat requiredFields (is0, filled) = (is1, filled1) \<Longrightarrow>
     map issueKind is1 = map issueKind is0 @ concat (map (spec_requiredIssue threshold fs) requiredFields)
     \<and> filled1 = filled + spec_pointsEarned threshold fs requiredFields"
proof (induction requiredFields arbitrary: is0 filled)
  case Nil
  then show ?case by (simp add: spec_pointsEarned_def)
next
  case (Cons fieldName rest)
  obtain is' filled' where step: "requiredStep threshold fs cat fieldName (is0, filled) = (is', filled')"
    by (cases "requiredStep threshold fs cat fieldName (is0, filled)")
  from Cons.prems step have "requiredLoop threshold fs cat rest (is', filled') = (is1, filled1)"
    by simp
  from Cons.IH [OF this] requiredStep_spec [OF step] show ?case
    by (simp add: spec_pointsEarned_def)
qed

text \<open>
  C3. For every category and field map, the completeness score is
  round(100 * points / requiredFieldCount): a required field earns 1 point when its value
  is present (not null, not the empty string) with confidence at or above the threshold,
  1/2 point and a warning issue when present below the threshold, and no point and an
  error issue when missing; with no required field the score is 100. Four required
  fields earning 1 + 1 + 1/2 + 0 points score 63.
\<close>

theorem checkCompleteness_score:
  "fst (checkCompleteness threshold fs requiredFields cat) =
     (if requiredFields = [] then 100
      else round (100 * spec_pointsEarned threshold fs requiredFields / real (length requiredFields)))
   \<and> map issueKind (snd (checkCompleteness threshold fs requiredFields cat)) =
       concat (map (spec_requiredIssue threshold fs) requiredFields)
       @ map issueKind (fieldIssueWarnings fs)
   \<and> (length requiredFields = 4 \<and> spec_pointsEarned threshold fs requiredFields = 1 + 1 + 1 / 2 + 0
        \<longrightarrow> fst (checkCompleteness threshold fs requiredFields cat) = 63)"
proof -
  obtain is1 filled1 where loop:
    "requiredLoop threshold fs cat requiredFields ([], 0) = (is1, filled1)"
    by (cases "requiredLoop threshold fs cat requiredFields ([], 0)")
  from requiredLoop_spec [OF loop]
  have is1: "map issueKind is1 = concat (map (spec_requiredIssue threshold fs) requiredFields)"
    and filled1: "filled1 = spec_pointsEarned threshold fs requiredFields"
    by simp_all
  have score: "fst (checkCompleteness threshold fs requiredFields cat) =
     (if requiredFields = [] then 100
      else round (100 * spec_pointsEarned threshold fs requiredFields / real (length requiredFields)))"
    using loop filled1 by (simp add: checkCompleteness_def Let_def algebra_simps)
  have iss: "map issueKind (snd (checkCompleteness threshold fs requiredFields cat)) =
       concat (map (spec_requiredIssue threshold fs) requiredFields)
       @ map issueKind (fieldIssueWarnings fs)"
    using loop is1 by (simp add: checkCompleteness_def Let_def)
  have ex: "length requiredFields = 4 \<and> spec_pointsEarned threshold fs requiredFields = 1 + 1 + 1 / 2 + 0
        \<longrightarrow> fst (checkCompleteness threshold fs requiredFields cat) = 63"
  proof
    assume h: "length requiredFields = 4 \<and> spec_pointsEarned threshold fs requiredFields = 1 + 1 + 1 / 2 + 0"
    then have ne: "requiredFields \<noteq> []" by auto
    from h have len: "length requiredFields = 4"
      and pts: "spec_pointsEarned threshold fs requiredFields = 5 / 2" by simp_all
    have "fst (checkCompleteness threshold fs requiredFields cat) = round (100 * (5 / 2) / real (4::nat))"
      unfolding score pts len using ne by simp
    also have "\<dots> = 63" by (simp add: round_def)
    finally show "fst (checkCompleteness threshold fs requiredFields cat) = 63" .
  qed
  from score iss ex show ?thesis by blast
qed

theorem checkCompleteness_score_witness:
  "fst (checkCompleteness extractionThreshold
      [(''fullName'', \<lparr>fieldValue = Some (Str ''Ada Byron''), fieldConfidence = 0.9, fieldSource = None, fieldIssues = None\<rparr>),
       (''dateOfBirth'', \<lparr>fieldValue = Some (Str ''1990-01-01''), fieldConfidence = 0.6, fieldSource = None, fieldIssues = None\<rparr>),
       (''documentNumber'', \<lparr>fieldValue = Some (Num 5), fieldConfidence = 0.3, fieldSource = None, fieldIssues = Some [''blurred'']\<rparr>),
       (''expiryDate'', \<lparr>fieldValue = Some (Str []), fieldConfidence = 0.9, fieldSource = None, fieldIssues = None\<rparr>)]
      (REQUIRED_FIELDS Identity) Identity) = 63
   \<and> map issueKind (snd (checkCompleteness extractionThreshold
      [(''fullName'', \<lparr>fieldValue = Some (Str ''Ada Byron''), fieldConfidence = 0.9, fieldSource = None, fieldIssues = None\<rparr>),
       (''dateOfBirth'', \<lparr>fieldValue = Some (Str ''1990-01-01''), fieldConfidence = 0.6, fieldSource = None, fieldIssues = None\<rparr>),
       (''documentNumber'', \<lparr>fieldValue = Some (Num 5), fieldConfidence = 0.3, fieldSource = None, fieldIssues = Some [''blurred'']\<rparr>),
       (''expiryDate'', \<lparr>fieldValue = Some (Str []), fieldConfidence = 0.9, fieldSource = None, fieldIssues = None\<rparr>)]
      (REQUIRED_FIELDS Identity) Identity))
     = [(''documentNumber'', SevWarning), (''expiryDate'', SevError), (''documentNumber'', SevWarning)]"
  using checkCompleteness_score [of extractionThreshold
      "[(''fullName'', \<lparr>fieldValue = Some (Str ''Ada Byron''), fieldConfidence = 0.9, fieldSource = None, fieldIssues = None\<rparr>),
       (''dateOfBirth'', \<lparr>fieldValue = Some (Str ''1990-01-01''), fieldConfidence = 0.6, fieldSource = None, fieldIssues = None\<rparr>),
       (''documentNumber'', \<lparr>fieldValue = Some (Num 5), fieldConfidence = 0.3, fieldSource = None, fieldIssues = Some [''blurred'']\<rparr>),
       (''expiryDate'', \<lparr>fieldValue = Some (Str []), fieldConfidence = 0.9, fieldSource = None, fieldIssues = None\<rparr>)]"
      "REQUIRED_FIELDS Identity" Identity]
  by (simp add: REQUIRED_FIELDS_def spec_pointsEarned_def spec_fieldState_def spec_points_def
        spec_requiredIssue_def extractionThreshold_def fieldIssueWarnings_def issueKind_def)

subsection \<open>Field normalization\<close>

lemma processField_cases:
  "processField RawNull =
     \<lparr>fieldValue = None, fieldConfidence = 0, fieldSource = None, fieldIssues = None\<rparr>"
  "processField (RawScalar s) =
     \<lparr>fieldValue = Some s, fieldConfidence = 0.7, fieldSource = None, fieldIssues = None\<rparr>"
  "fieldValue (processField (RawObject fd)) = rawValue fd"
  "0 \<le> fieldConfidence (processField (RawObject fd))"
  "fieldConfidence (processField (RawObject fd)) \<le> 1"
  "rawConfidence fd = None \<Longrightarrow> fieldConfidence (processField (RawObject fd)) = 0.5"
  "rawConfidence fd = Some c \<Longrightarrow> c \<noteq> 0 \<Longrightarrow>
     fieldConfidence (processField (RawObject fd)) = max 0 (min 1 c)"
  by (simp_all add: processField_def confidenceOrDefault_def)

text \<open>
  C4. The claim: an object shaped like \<open>{value, confidence}\<close> keeps its value, has its
  confidence clamped to [0,1], and gets the default 0.5 only when the confidence is
  absent, so that a self-reported confidence of 0 stays 0. The code: a self-reported
  confidence of 0 is falsy in \<open>confidence || 0.5\<close> and becomes 0.5.
\<close>

theorem processField_zero_confidence:
  "processField (RawObject \<lparr>rawValue = v, rawConfidence = Some 0, rawSource = src, rawIssues = is\<rparr>)
     = \<lparr>fieldValue = v, fieldConfidence = 1 / 2, fieldSource = src, fieldIssues = is\<rparr>
   \<and> processExtractedFields
        [(''fullName'', RawObject \<lparr>rawValue = Some (Str ''Ada Byron''), rawConfidence = Some 0,
                                   rawSource = None, rawIssues = None\<rparr>)]
     = [(''fullName'', \<lparr>fieldValue = Some (Str ''Ada Byron''), fieldConfidence = 1 / 2,
                         fieldSource = None, fieldIssues = None\<rparr>)]"
  by (simp add: processExtractedFields_def processField_def confidenceOrDefault_def)

subsection \<open>Extraction failure\<close>

text \<open>
  C8. For every category, when the model call throws or returns no content,
  \<open>extractDocument\<close> returns exactly success false, the category as document type, no
  fields, score 0 and one issue with field \<open>_general\<close>, severity error and a message
  that contains the failure message; and for no reply at all does it pass a thrown
  value on to its caller.
\<close>

theorem extractDocument_failure:
  "extractDocument (CallThrows e) cat =
     Inr \<lparr>success = False, resultDocumentType = cat, resultFields = [],
          resultCompletenessScore = 0,
          resultIssues = [\<lparr>issueField = ''_general'', severity = SevError,
                           message = ''Extraction failed: '' @ errorMessage e,
                           suggestion = None\<rparr>]\<rparr>
   \<and> errorMessage (ErrorInstance m) = m
   \<and> extractDocument NoContent cat =
     Inr \<lparr>success = False, resultDocumentType = cat, resultFields = [],
          resultCompletenessScore = 0,
          resultIssues = [\<lparr>issueField = ''_general'', severity = SevError,
                           message = ''Extraction failed: '' @ ''No response from extraction model'',
                           suggestion = None\<rparr>]\<rparr>
   \<and> (\<exists>r. extractDocument reply cat = Inr r)"
  by (simp add: extractDocument_def extractDocument_try_def errorMessage_def Let_def
        split: ModelReply.split prod.split)

theorem extractDocument_failure_witness:
  "extractDocument (CallThrows (ErrorInstance ''429 Rate limit exceeded'')) Income =
     Inr \<lparr>success = False, resultDocumentType = Income, resultFields = [],
          resultCompletenessScore = 0,
          resultIssues = [\<lparr>issueField = ''_general'', severity = SevError,
                           message = ''Extraction failed: 429 Rate limit exceeded'',
                           suggestion = None\<rparr>]\<rparr>"
  using extractDocument_failure [of "ErrorInstance ''429 Rate limit exceeded''" Income
          "''429 Rate limit exceeded''" NoContent]
  by simp

subsection \<open>Reference numbers\<close>

lemma digit_value_digit_char: "d < 10 \<Longrightarrow> digit_value (digit_char d) = d"
proof -
  assume "d < 10"
  then consider "d = 0" | "d = 1" | "d = 2" | "d = 3" | "d = 4" | "d = 5" | "d = 6" | "d = 7"
    | "d = 8" | "d = 9" by atomize_elim arith
  then show ?thesis
    by cases (simp_all add: digit_value_def digit_char_def)
qed

lemma read_nat_snoc: "read_nat (s @ [c]) = 10 * read_nat s + digit_value c"
  by (simp add: read_nat_def)

lemma read_nat_show_nat: "read_nat (show_nat n) = n"
proof (induction n rule: show_nat.induct)
  case (1 n)
  show ?case
  proof (cases "n < 10")
    case True
    then show ?thesis
      by (subst show_nat.simps) (simp add: read_nat_def digit_value_digit_char)
  next
    case False
    with 1 have IH: "read_nat (show_nat (n div 10)) = n div 10" by simp
    have "read_nat (show_nat n) = 10 * read_nat (show_nat (n div 10)) + digit_value (digit_char (n mod 10))"
      using False by (subst show_nat.simps) (simp add: read_nat_snoc)
    also have "\<dots> = 10 * (n div 10) + n mod 10"
      by (simp add: IH digit_value_digit_char)
    also have "\<dots> = n" by simp
    finally show ?thesis .
  qed
qed

lemma foldl_zeros: "foldl (\<lambda>acc c. 10 * acc + digit_value c) 0 (replicate k (CHR ''0'')) = 0"
  by (induction k) (simp_all add: digit_value_def)

lemma read_nat_padStart: "read_nat (padStart m (CHR ''0'') s) = read_nat s"
  by (simp add: padStart_def read_nat_def foldl_zeros)

lemma length_show_nat: "0 < m \<Longrightarrow> n < 10 ^ m \<Longrightarrow> length (show_nat n) \<le> m"
proof (induction n arbitrary: m rule: show_nat.induct)
  case (1 n)
  show ?case
  proof (cases "n < 10")
    case True
    with "1.prems" show ?thesis by (subst show_nat.simps) simp
  next
    case False
    from False "1.prems" have m1: "1 < m"
      by (cases "m = 1") auto
    then obtain m' where m': "m = Suc m'" "0 < m'" by (cases m) auto
    from "1.prems" m' have "n div 10 < 10 ^ m'"
      by (simp add: less_mult_imp_div_less mult.commute)
    from "1.IH" [OF False m'(2) this] have "length (show_nat (n div 10)) \<le> m'" .
    then show ?thesis using False m' by (subst show_nat.simps) simp
  qed
qed

lemma show_nat_nonempty: "show_nat n \<noteq> []"
  by (subst show_nat.simps) simp

lemma length_padded: "0 < k \<Longrightarrow> k < 10000 \<Longrightarrow> length (padStart 4 (CHR ''0'') (show_nat k)) = 4"
proof -
  assume "0 < k" "k < 10000"
  then have "length (show_nat k) \<le> 4"
    using length_show_nat [of 4 k] by simp
  then show ?thesis by (simp add: padStart_def)
qed

lemma spec_referenceNumber_inj: "spec_referenceNumber y j = spec_referenceNumber y k \<Longrightarrow> j = k"
proof -
  assume "spec_referenceNumber y j = spec_referenceNumber y k"
  then have "padStart 4 (CHR ''0'') (show_nat j) = padStart 4 (CHR ''0'') (show_nat k)"
    by (simp add: spec_referenceNumber_def)
  then have "read_nat (padStart 4 (CHR ''0'') (show_nat j)) = read_nat (padStart 4 (CHR ''0'') (show_nat k))"
    by simp
  then show "j = k" by (simp add: read_nat_padStart read_nat_show_nat)
qed

lemma show_int_int: "show_int (int k) = show_nat k"
  by (simp add: show_int_def)

lemma generateReferenceNumber_fresh:
  "name = ''ref_number_'' @ show_int y \<Longrightarrow> seqs name = None \<Longrightarrow>
     generateReferenceNumber y seqs = (Inr (spec_referenceNumber y 1), seqs(name \<mapsto> 1))"
  using show_int_int [of 1]
  by (simp add: generateReferenceNumber_def getNextSequence_def incrementSequence_def
        spec_referenceNumber_def)

lemma generateReferenceNumber_next:
  "name = ''ref_number_'' @ show_int y \<Longrightarrow> seqs name = Some (int j) \<Longrightarrow>
     generateReferenceNumber y seqs =
       (Inr (spec_referenceNumber y (Suc j)), seqs(name \<mapsto> int (Suc j)))"
  using show_int_int [of "Suc j"]
  by (simp add: generateReferenceNumber_def getNextSequence_def incrementSequence_def
        spec_referenceNumber_def add.commute)

lemma sequentialCreations_from:
  "name = ''ref_number_'' @ show_int y \<Longrightarrow> seqs name = Some (int j) \<Longrightarrow>
     sequentialCreations y n seqs =
       (map (\<lambda>k. Inr (spec_referenceNumber y k)) [Suc j ..< Suc j + n],
        if n = 0 then seqs else seqs(name \<mapsto> int (j + n)))"
proof (induction n arbitrary: seqs j)
  case 0
  show ?case by simp
next
  case (Suc n)
  let ?seqs1 = "seqs(name \<mapsto> int (Suc j))"
  have g: "generateReferenceNumber y seqs = (Inr (spec_referenceNumber y (Suc j)), ?seqs1)"
    by (rule generateReferenceNumber_next [where name = name and seqs = seqs, OF Suc.prems(1) Suc.prems(2)])
  have s1: "?seqs1 name = Some (int (Suc j))" by simp
  have IH: "sequentialCreations y n ?seqs1 =
       (map (\<lambda>k. Inr (spec_referenceNumber y k)) [Suc (Suc j) ..< Suc (Suc j) + n],
        if n = 0 then ?seqs1 else ?seqs1(name \<mapsto> int (Suc j + n)))"
    by (rule Suc.IH [where seqs = ?seqs1 and j = "Suc j", OF Suc.prems(1) s1])
  have up: "[Suc j ..< Suc j + Suc n] = Suc j # [Suc (Suc j) ..< Suc (Suc j) + n]"
    by (simp add: upt_conv_Cons)
  have fin: "(if n = 0 then ?seqs1 else ?seqs1(name \<mapsto> int (Suc j + n)))
             = seqs(name \<mapsto> int (j + Suc n))"
    by (cases "n = 0") simp_all
  have "sequentialCreations y (Suc n) seqs =
      (Inr (spec_referenceNumber y (Suc j))
         # map (\<lambda>k. Inr (spec_referenceNumber y k)) [Suc (Suc j) ..< Suc (Suc j) + n],
       seqs(name \<mapsto> int (j + Suc n)))"
    by (simp only: sequentialCreations.simps g IH fin prod.case)
  then show ?case by (simp only: up list.map nat.distinct if_False)
qed

lemma sequentialCreations_fresh:
  assumes nm: "name = ''ref_number_'' @ show_int y" and fresh: "seqs name = None"
  shows "sequentialCreations y n seqs =
       (map (\<lambda>k. Inr (spec_referenceNumber y k)) [1 ..< Suc n],
        if n = 0 then seqs else seqs(name \<mapsto> int n))"
proof (cases n)
  case 0
  then show ?thesis by simp
next
  case (Suc m)
  let ?seqs1 = "seqs(name \<mapsto> 1)"
  have g: "generateReferenceNumber y seqs = (Inr (spec_referenceNumber y 1), ?seqs1)"
    by (rule generateReferenceNumber_fresh [where name = name and seqs = seqs, OF nm fresh])
  have s1: "?seqs1 name = Some (int 1)" by simp
  have rest: "sequentialCreations y m ?seqs1 =
       (map (\<lambda>k. Inr (spec_referenceNumber y k)) [Suc 1 ..< Suc 1 + m],
        if m = 0 then ?seqs1 else ?seqs1(name \<mapsto> int (1 + m)))"
    by (rule sequentialCreations_from [where name = name and seqs = ?seqs1 and j = 1, OF nm s1])
  have fin: "(if m = 0 then ?seqs1 else ?seqs1(name \<mapsto> int (1 + m))) = seqs(name \<mapsto> int (Suc m))"
    by (cases "m = 0") simp_all
  have up: "[1 ..< Suc (Suc m)] = 1 # [Suc 1 ..< Suc 1 + m]"
    by (simp add: upt_conv_Cons)
  have "sequentialCreations y (Suc m) seqs =
      (Inr (spec_referenceNumber y 1)
         # map (\<lambda>k. Inr (spec_referenceNumber y k)) [Suc 1 ..< Suc 1 + m],
       seqs(name \<mapsto> int (Suc m)))"
    by (simp only: sequentialCreations.simps g rest fin prod.case)
  then show ?thesis unfolding Suc by (simp only: up list.map nat.distinct if_False)
qed

lemma distinct_references:
  "distinct (map (\<lambda>k. (Inr (spec_referenceNumber y k) :: thrown + string)) [1 ..< Suc n])"
proof -
  have "inj (\<lambda>k. (Inr (spec_referenceNumber y k) :: thrown + string))"
    by (rule injI) (auto dest: spec_referenceNumber_inj)
  then show ?thesis by (simp add: distinct_map inj_on_def)
qed

text \<open>
  C9. For every year Y, starting from a table with no counter for Y, N case creations
  one after the other in year Y generate exactly the reference numbers SH-Y-0001 to
  SH-Y-000N, in this order, with no gap and no duplicate: the counter of the year starts
  at 1 and grows by 1 with each creation, and sequence numbers below 10000 are padded
  with zeros to 4 digits.
\<close>

theorem sequentialCreations_references:
  assumes "seqs (''ref_number_'' @ show_int y) = None"
  shows "fst (sequentialCreations y n seqs) = map (\<lambda>k. Inr (spec_referenceNumber y k)) [1 ..< Suc n]
    \<and> distinct (fst (sequentialCreations y n seqs))
    \<and> (0 < n \<longrightarrow> snd (sequentialCreations y n seqs) (''ref_number_'' @ show_int y) = Some (int n))
    \<and> (\<forall>k. 0 < k \<and> k < 10000 \<longrightarrow> length (padStart 4 (CHR ''0'') (show_nat k)) = 4)"
proof -
  have eq: "sequentialCreations y n seqs =
       (map (\<lambda>k. Inr (spec_referenceNumber y k)) [1 ..< Suc n],
        if n = 0 then seqs else seqs(''ref_number_'' @ show_int y \<mapsto> int n))"
    by (rule sequentialCreations_fresh [where name = "''ref_number_'' @ show_int y" and seqs = seqs, OF refl assms])
  have a: "fst (sequentialCreations y n seqs) = map (\<lambda>k. Inr (spec_referenceNumber y k)) [1 ..< Suc n]"
    by (simp only: eq fst_conv)
  have b: "distinct (fst (sequentialCreations y n seqs))"
    unfolding a by (rule distinct_references)
  have c: "0 < n \<longrightarrow> snd (sequentialCreations y n seqs) (''ref_number_'' @ show_int y) = Some (int n)"
    unfolding eq by simp
  have d: "\<forall>k. 0 < k \<and> k < 10000 \<longrightarrow> length (padStart 4 (CHR ''0'') (show_nat k)) = 4"
    by (simp add: length_padded)
  from a b c d show ?thesis by blast
qed

lemma example_references:
  "map (\<lambda>k. (Inr (spec_referenceNumber 2025 k) :: thrown + string)) [1 ..< Suc 3]
     = [Inr ''SH-2025-0001'', Inr ''SH-2025-0002'', Inr ''SH-2025-0003'']"
  by code_simp

theorem sequentialCreations_references_witness:
  "Map.empty (''ref_number_'' @ show_int 2025) = (None :: int option)
   \<and> fst (sequentialCreations 2025 3 Map.empty)
       = [Inr ''SH-2025-0001'', Inr ''SH-2025-0002'', Inr ''SH-2025-0003'']"
  using sequentialCreations_references [of Map.empty 2025 3]
  by (simp only: example_references empty_iff simp_thms)

subsection \<open>Overall completeness\<close>

lemmas double_arith =
  toDouble_def exponentOf_def pow2_def roundHalfEven_def bitLength.simps
  dadd_def dmul_def ddiv_def Let_def

text \<open>
  The example of the specification: one required verified item, one optional missing
  item and one required pending item give 75.
\<close>

lemma completenessOfEntries_example:
  "completenessOfEntries
     [(k1, Some \<lparr>required = True, status = Verified, documentIds = ds1, issues = is1\<rparr>),
      (k2, Some \<lparr>required = False, status = Missing, documentIds = ds2, issues = is2\<rparr>),
      (k3, Some \<lparr>required = True, status = Pending, documentIds = ds3, issues = is3\<rparr>)] = 75"
proof -
  have loop: "completenessLoop
     [(k1, Some \<lparr>required = True, status = Verified, documentIds = ds1, issues = is1\<rparr>),
      (k2, Some \<lparr>required = False, status = Missing, documentIds = ds2, issues = is2\<rparr>),
      (k3, Some \<lparr>required = True, status = Pending, documentIds = ds3, issues = is3\<rparr>)] (0, 0)
     = (4, 3)"
    by (simp add: completenessStep_def double_arith)
  have quot: "ddiv 3 4 = 3 / 4" by (simp add: double_arith)
  have prod: "dmul (3 / 4) 100 = 75" by (simp add: double_arith)
  show ?thesis
    unfolding completenessOfEntries_def loop by (simp add: quot prod)
qed

text \<open>
  C5. The claim: for every checklist status, \<open>calculateOverallCompleteness\<close> is
  round(100 * achievedWeight / totalWeight), with required items weighing 2, optional
  items 1, optional missing items left out, and credits 1, 1/2, 1/4 and 0. The code
  divides first and multiplies by 100 afterwards, in doubles: for the status below the
  total weight is 10 and the achieved weight 5.75, the quotient 0.575 is not a double,
  its product with 100 is the double just below 57.5, and the code returns 57 where
  the formula gives round(57.5) = 58.
\<close>

theorem calculateOverallCompleteness_rounds_down:
  "calculateOverallCompleteness
     \<lparr>identity = \<lparr>required = False, status = Issues, documentIds = [''d1''],
                   issues = Some [''id.png: Processing failed'']\<rparr>,
      income = \<lparr>required = True, status = Verified, documentIds = [''d2''], issues = None\<rparr>,
      bankStatements = \<lparr>required = True, status = Verified, documentIds = [''d3''], issues = None\<rparr>,
      proofOfAddress = \<lparr>required = True, status = Pending, documentIds = [''d4''],
                         issues = Some [''bill.pdf: Document is older than 3 months'']\<rparr>,
      welfareBenefit = Some \<lparr>required = False, status = Pending, documentIds = [''d5''],
                               issues = Some [''uc.pdf: Missing benefit details'']\<rparr>,
      medicalEvidence = Some \<lparr>required = False, status = Missing, documentIds = [], issues = None\<rparr>,
      tenancyAgreement = Some \<lparr>required = True, status = Missing, documentIds = [],
                                 issues = Some [''Current tenancy agreement required'']\<rparr>\<rparr>
     = 57
   \<and> spec_completeness (presentItems (checklistEntries
     \<lparr>identity = \<lparr>required = False, status = Issues, documentIds = [''d1''],
                   issues = Some [''id.png: Processing failed'']\<rparr>,
      income = \<lparr>required = True, status = Verified, documentIds = [''d2''], issues = None\<rparr>,
      bankStatements = \<lparr>required = True, status = Verified, documentIds = [''d3''], issues = None\<rparr>,
      proofOfAddress = \<lparr>required = True, status = Pending, documentIds = [''d4''],
                         issues = Some [''bill.pdf: Document is older than 3 months'']\<rparr>,
      welfareBenefit = Some \<lparr>required = False, status = Pending, documentIds = [''d5''],
                               issues = Some [''uc.pdf: Missing benefit details'']\<rparr>,
      medicalEvidence = Some \<lparr>required = False, status = Missing, documentIds = [], issues = None\<rparr>,
      tenancyAgreement = Some \<lparr>required = True, status = Missing, documentIds = [],
                                 issues = Some [''Current tenancy agreement required'']\<rparr>\<rparr>))
     = 58"
proof
  have loop: "completenessLoop (checklistEntries
     \<lparr>identity = \<lparr>required = False, status = Issues, documentIds = [''d1''],
                   issues = Some [''id.png: Processing failed'']\<rparr>,
      income = \<lparr>required = True, status = Verified, documentIds = [''d2''], issues = None\<rparr>,
      bankStatements = \<lparr>required = True, status = Verified, documentIds = [''d3''], issues = None\<rparr>,
      proofOfAddress = \<lparr>required = True, status = Pending, documentIds = [''d4''],
                         issues = Some [''bill.pdf: Document is older than 3 months'']\<rparr>,
      welfareBenefit = Some \<lparr>required = False, status = Pending, documentIds = [''d5''],
                               issues = Some [''uc.pdf: Missing benefit details'']\<rparr>,
      medicalEvidence = Some \<lparr>required = False, status = Missing, documentIds = [], issues = None\<rparr>,
      tenancyAgreement = Some \<lparr>required = True, status = Missing, documentIds = [],
                                 issues = Some [''Current tenancy agreement required'']\<rparr>\<rparr>) (0, 0) = (10, 23 / 4)"
    by (simp add: checklistEntries_def completenessStep_def double_arith)
  have quot: "ddiv (23 / 4) 10 = 5179139571476070 / 2 ^ 53"
    by (simp add: double_arith)
  have prod: "dmul (5179139571476070 / 2 ^ 53) 100 = 8092405580431359 / 2 ^ 47"
    by (simp add: double_arith)
  have rnd: "round (8092405580431359 / 2 ^ 47 :: real) = 57"
    by (simp add: round_def)
  show "calculateOverallCompleteness
     \<lparr>identity = \<lparr>required = False, status = Issues, documentIds = [''d1''],
                   issues = Some [''id.png: Processing failed'']\<rparr>,
      income = \<lparr>required = True, status = Verified, documentIds = [''d2''], issues = None\<rparr>,
      bankStatements = \<lparr>required = True, status = Verified, documentIds = [''d3''], issues = None\<rparr>,
      proofOfAddress = \<lparr>required = True, status = Pending, documentIds = [''d4''],
                         issues = Some [''bill.pdf: Document is older than 3 months'']\<rparr>,
      welfareBenefit = Some \<lparr>required = False, status = Pending, documentIds = [''d5''],
                               issues = Some [''uc.pdf: Missing benefit details'']\<rparr>,
      medicalEvidence = Some \<lparr>required = False, status = Missing, documentIds = [], issues = None\<rparr>,
      tenancyAgreement = Some \<lparr>required = True, status = Missing, documentIds = [],
                                 issues = Some [''Current tenancy agreement required'']\<rparr>\<rparr>
     = 57"
    unfolding calculateOverallCompleteness_def completenessOfEntries_def loop
    by (simp only: prod.case quot prod rnd) simp
  show "spec_completeness (presentItems (checklistEntries
     \<lparr>identity = \<lparr>required = False, status = Issues, documentIds = [''d1''],
                   issues = Some [''id.png: Processing failed'']\<rparr>,
      income = \<lparr>required = True, status = Verified, documentIds = [''d2''], issues = None\<rparr>,
      bankStatements = \<lparr>required = True, status = Verified, documentIds = [''d3''], issues = None\<rparr>,
      proofOfAddress = \<lparr>required = True, status = Pending, documentIds = [''d4''],
                         issues = Some [''bill.pdf: Document is older than 3 months'']\<rparr>,
      welfareBenefit = Some \<lparr>required = False, status = Pending, documentIds = [''d5''],
                               issues = Some [''uc.pdf: Missing benefit details'']\<rparr>,
      medicalEvidence = Some \<lparr>required = False, status = Missing, documentIds = [], issues = None\<rparr>,
      tenancyAgreement = Some \<lparr>required = True, status = Missing, documentIds = [],
                                 issues = Some [''Current tenancy agreement required'']\<rparr>\<rparr>))
     = 58"
    by (simp add: checklistEntries_def presentItems_def spec_completeness_def spec_totalWeight_def
          spec_achievedWeight_def spec_counted_def spec_weight_def spec_credit_def round_def)
qed

subsection \<open>Aggregation of page classifications\<close>

lemma set_firstAppearances: "set (firstAppearances xs) = set xs"
  by (induction xs) auto

lemma distinct_firstAppearances: "distinct (firstAppearances xs)"
  by (induction xs) (auto simp: set_firstAppearances)

lemma mapSet_tabulated:
  "mapSet k v (map (\<lambda>c. (c, g c)) ks) =
     map (\<lambda>c. (c, (g(k := v)) c)) (if k \<in> set ks then ks else ks @ [k])"
  if "distinct ks"
  using that by (induction ks) auto

lemma getOrZero_tabulated:
  "getOrZero (map (\<lambda>c. (c, g c)) ks) k = (if k \<in> set ks then g k else 0)"
  by (induction ks) (auto simp: getOrZero_def)

lemma scoreLoop_tabulated:
  "distinct ks \<Longrightarrow> (\<forall>c. c \<notin> set ks \<longrightarrow> g c = 0) \<Longrightarrow>
   scoreLoop rs (map (\<lambda>c. (c, g c)) ks) =
     map (\<lambda>c. (c, foldl dadd (g c) (map resultConfidence (filter (\<lambda>r. resultCategory r = c) rs))))
       (ks @ filter (\<lambda>c. c \<notin> set ks) (firstAppearances (map resultCategory rs)))"
proof (induction rs arbitrary: ks g)
  case Nil
  then show ?case by simp
next
  case (Cons r rs)
  let ?c0 = "resultCategory r"
  let ?g' = "g(?c0 := dadd (g ?c0) (resultConfidence r))"
  let ?ks' = "if ?c0 \<in> set ks then ks else ks @ [?c0]"
  have get: "getOrZero (map (\<lambda>c. (c, g c)) ks) ?c0 = g ?c0"
    using Cons.prems(2) by (simp add: getOrZero_tabulated)
  have step: "scoreLoop (r # rs) (map (\<lambda>c. (c, g c)) ks) = scoreLoop rs (map (\<lambda>c. (c, ?g' c)) ?ks')"
    by (simp only: scoreLoop.simps get mapSet_tabulated [OF Cons.prems(1)])
  have d': "distinct ?ks'" using Cons.prems(1) by simp
  have z': "\<forall>c. c \<notin> set ?ks' \<longrightarrow> ?g' c = 0" using Cons.prems(2) by auto
  have IH: "scoreLoop rs (map (\<lambda>c. (c, ?g' c)) ?ks') =
     map (\<lambda>c. (c, foldl dadd (?g' c) (map resultConfidence (filter (\<lambda>r. resultCategory r = c) rs))))
       (?ks' @ filter (\<lambda>c. c \<notin> set ?ks') (firstAppearances (map resultCategory rs)))"
    by (rule Cons.IH [OF d' z'])
  have vals: "(\<lambda>c. (c, foldl dadd (?g' c) (map resultConfidence (filter (\<lambda>r. resultCategory r = c) rs))))
     = (\<lambda>c. (c, foldl dadd (g c) (map resultConfidence (filter (\<lambda>r. resultCategory r = c) (r # rs)))))"
    by (rule ext) simp
  have keys: "?ks' @ filter (\<lambda>c. c \<notin> set ?ks') (firstAppearances (map resultCategory rs))
      = ks @ filter (\<lambda>c. c \<notin> set ks) (firstAppearances (map resultCategory (r # rs)))"
  proof (cases "?c0 \<in> set ks")
    case True
    then have "filter (\<lambda>c. c \<notin> set ks) (filter (\<lambda>y. y \<noteq> ?c0) (firstAppearances (map resultCategory rs)))
       = filter (\<lambda>c. c \<notin> set ks) (firstAppearances (map resultCategory rs))"
      by (auto intro: filter_cong)
    with True show ?thesis by simp
  next
    case False
    have "filter (\<lambda>c. c \<notin> set ks) (filter (\<lambda>y. y \<noteq> ?c0) (firstAppearances (map resultCategory rs)))
       = filter (\<lambda>c. c \<notin> set (ks @ [?c0])) (firstAppearances (map resultCategory rs))"
      by (auto intro: filter_cong)
    with False show ?thesis by simp
  qed
  show ?case unfolding step IH vals keys ..
qed

lemma scoreLoop_spec:
  "scoreLoop rs [] = map (\<lambda>c. (c, summedScore rs c)) (firstAppearances (map resultCategory rs))"
  using scoreLoop_tabulated [of "[]" "\<lambda>c. 0" rs] by (simp add: summedScore_def)

lemma bestLoop_upper:
  "bestLoop xs (b, v) = (b', v') \<Longrightarrow> v \<le> v' \<and> (\<forall>p \<in> set xs. snd p \<le> v')"
proof (induction xs arbitrary: b v)
  case Nil
  then show ?case by simp
next
  case (Cons x rest)
  obtain c s where x: "x = (c, s)" by (cases x)
  show ?case
  proof (cases "s > v")
    case True
    with Cons.prems x have "bestLoop rest (c, s) = (b', v')" by simp
    from Cons.IH [OF this] True x show ?thesis by simp
  next
    case False
    with Cons.prems x have "bestLoop rest (b, v) = (b', v')" by simp
    from Cons.IH [OF this] False x show ?thesis by simp
  qed
qed

lemma bestLoop_unchanged:
  "bestLoop xs (b, v) = (b', v') \<Longrightarrow> \<forall>p \<in> set xs. snd p \<le> v \<Longrightarrow> (b', v') = (b, v)"
proof (induction xs arbitrary: b v)
  case Nil
  then show ?case by simp
next
  case (Cons x rest)
  obtain c s where x: "x = (c, s)" by (cases x)
  from Cons.prems(2) x have le: "s \<le> v" and rest: "\<forall>p \<in> set rest. snd p \<le> v" by simp_all
  from Cons.prems(1) x le have "bestLoop rest (b, v) = (b', v')" by simp
  from Cons.IH [OF this rest] show ?case .
qed

lemma bestLoop_first:
  "bestLoop xs (b, v) = (b', v') \<Longrightarrow> p \<in> set xs \<Longrightarrow> v < snd p \<Longrightarrow>
     \<exists>pre post. xs = pre @ (b', v') # post \<and> (\<forall>q \<in> set pre. snd q < v')"
proof (induction xs arbitrary: b v p)
  case Nil
  then show ?case by simp
next
  case (Cons x rest)
  obtain c s where x: "x = (c, s)" by (cases x)
  show ?case
  proof (cases "s > v")
    case True
    with Cons.prems(1) x have run: "bestLoop rest (c, s) = (b', v')" by simp
    show ?thesis
    proof (cases "\<forall>q \<in> set rest. snd q \<le> s")
      case True
      from bestLoop_unchanged [OF run True] have "(b', v') = (c, s)" .
      with x have "x # rest = [] @ (b', v') # rest \<and> (\<forall>q \<in> set []. snd q < v')" by simp
      then show ?thesis by (intro exI)
    next
      case False
      then obtain q where q: "q \<in> set rest" "s < snd q" by (auto simp: not_le)
      from Cons.IH [OF run q] obtain pre post
        where pp: "rest = pre @ (b', v') # post" "\<forall>q \<in> set pre. snd q < v'" by blast
      from bestLoop_upper [OF run] q have "s < v'" by fastforce
      with pp x have "x # rest = (x # pre) @ (b', v') # post \<and> (\<forall>q \<in> set (x # pre). snd q < v')"
        by simp
      then show ?thesis by (intro exI)
    qed
  next
    case False
    with Cons.prems(1) x have run: "bestLoop rest (b, v) = (b', v')" by simp
    from Cons.prems(2,3) False x have pin: "p \<in> set rest" by auto
    from Cons.IH [OF run pin Cons.prems(3)] obtain pre post
      where pp: "rest = pre @ (b', v') # post" "\<forall>q \<in> set pre. snd q < v'" by blast
    from bestLoop_upper [OF run] pin Cons.prems(3) have "v < v'" by fastforce
    with False have "s < v'" by simp
    with pp x have "x # rest = (x # pre) @ (b', v') # post \<and> (\<forall>q \<in> set (x # pre). snd q < v')"
      by simp
    then show ?thesis by (intro exI)
  qed
qed

lemma hd_insort_key:
  "insort_key f x ys = z # zs \<Longrightarrow>
     z = (case ys of [] \<Rightarrow> x | y # _ \<Rightarrow> if f x \<le> f y then x else y)"
  by (cases ys) (auto split: if_splits)

lemma sort_key_first_min:
  fixes f :: "'a \<Rightarrow> real"
  shows "sort_key f xs = y # ys \<Longrightarrow> find (\<lambda>x. list_all (\<lambda>z. f x \<le> f z) xs) xs = Some y"
proof (induction xs arbitrary: y ys)
  case Nil
  then show ?case by simp
next
  case (Cons x xs)
  have ins: "insort_key f x (sort_key f xs) = y # ys" using Cons.prems by simp
  show ?case
  proof (cases "sort_key f xs")
    case Nil
    then have "xs = []" by (metis length_sort list.size(3) length_0_conv)
    with ins show ?thesis by simp
  next
    case (Cons h hs)
    note IH = Cons.IH [OF Cons]
    have hmin: "list_all (\<lambda>z. f h \<le> f z) xs" and hin: "h \<in> set xs"
      using IH by (auto simp: find_Some_iff list_all_iff)
    show ?thesis
    proof (cases "f x \<le> f h")
      case True
      with ins Cons have "y = x" by simp
      moreover have "list_all (\<lambda>z. f x \<le> f z) (x # xs)"
        using True hmin by (auto simp: list_all_iff)
      ultimately show ?thesis by simp
    next
      case False
      with ins Cons have yh: "y = h" by simp
      have notx: "\<not> list_all (\<lambda>z. f x \<le> f z) (x # xs)"
        using False hin by (auto simp: list_all_iff)
      have "find (\<lambda>a. list_all (\<lambda>z. f a \<le> f z) (x # xs)) xs
            = find (\<lambda>a. list_all (\<lambda>z. f a \<le> f z) xs) xs"
      proof (rule find_cong [OF refl])
        fix a assume "a \<in> set xs"
        show "list_all (\<lambda>z. f a \<le> f z) (x # xs) = list_all (\<lambda>z. f a \<le> f z) xs"
        proof
          assume "list_all (\<lambda>z. f a \<le> f z) xs"
          then have "f a \<le> f h" using hin by (auto simp: list_all_iff)
          with False have "f a \<le> f x" by simp
          with \<open>list_all (\<lambda>z. f a \<le> f z) xs\<close> show "list_all (\<lambda>z. f a \<le> f z) (x # xs)" by simp
        qed simp
      qed
      with notx IH yh show ?thesis by simp
    qed
  qed
qed

lemma takeWhile_filter_commute:
  "(\<And>y. \<not> P y \<Longrightarrow> Q y) \<Longrightarrow> takeWhile P (filter Q ys) = filter Q (takeWhile P ys)"
  by (induction ys) auto

lemma takeWhile_firstAppearances:
  "set (takeWhile (\<lambda>x. x \<noteq> c) (firstAppearances xs)) = set (takeWhile (\<lambda>x. x \<noteq> c) xs)"
proof (induction xs)
  case Nil
  show ?case by simp
next
  case (Cons x xs)
  show ?case
  proof (cases "x = c")
    case True
    then show ?thesis by simp
  next
    case False
    have "takeWhile (\<lambda>y. y \<noteq> c) (filter (\<lambda>y. y \<noteq> x) (firstAppearances xs))
          = filter (\<lambda>y. y \<noteq> x) (takeWhile (\<lambda>y. y \<noteq> c) (firstAppearances xs))"
      using False by (intro takeWhile_filter_commute) auto
    then show ?thesis using False Cons by auto
  qed
qed


lemma takeWhile_until:
  "c \<notin> set xs \<Longrightarrow> takeWhile (\<lambda>x. x \<noteq> c) (xs @ c # ys) = xs"
  by (induction xs) auto

lemma summedScore_absent: "c \<notin> resultCategory ` set results \<Longrightarrow> summedScore results c = 0"
proof -
  assume "c \<notin> resultCategory ` set results"
  then have "filter (\<lambda>r. resultCategory r = c) results = []"
    by (auto simp: filter_empty_conv)
  then show ?thesis by (simp add: summedScore_def)
qed

lemma alternatives_tabulated:
  "getAlternativeCategories (map (\<lambda>c. (c, S c)) K) bc =
     take 2 (sortByConfidenceDesc altConfidence
       (map (\<lambda>c'. \<lparr>altCategory = c', altConfidence = min (S c') 1\<rparr>)
          (filter (\<lambda>c'. c' \<noteq> bc \<and> S c' > toDouble 0.3) K)))"
  by (simp add: getAlternativeCategories_def filter_map comp_def)

lemma aggregate_unfold:
  assumes "scoreLoop results [] = scores" and "bestLoop scores (Unknown, 0) = (bc, bs)"
  shows "aggregateClassifications results =
    (let relevantResults = filter (\<lambda>r. resultCategory r = bc) results;
         bestResult = (case sortByConfidenceDesc resultConfidence relevantResults of
                         [] \<Rightarrow> None | r # _ \<Rightarrow> Some r)
     in \<lparr>resultCategory = bc,
          resultConfidence =
            (if length relevantResults = 0 then None
             else Some (ddiv (foldl (\<lambda>sum r. dadd sum (resultConfidence r)) 0 relevantResults)
                             (real (length relevantResults)))),
          subtype = (case bestResult of None \<Rightarrow> None | Some r \<Rightarrow> subtype r),
          reasoning = ''Aggregated from '' @ show_nat (length results) @ '' pages. ''
                      @ (case bestResult of None \<Rightarrow> [] | Some r \<Rightarrow> reasoning r),
          alternativeCategories = Some (getAlternativeCategories scores bc)\<rparr>)"
  using assms by (simp add: aggregateClassifications_def Let_def)

lemma bestResult_spec:
  "rel \<noteq> [] \<Longrightarrow>
   \<exists>r. firstMostConfident rel = Some r
       \<and> (case sortByConfidenceDesc resultConfidence rel of [] \<Rightarrow> None | r # _ \<Rightarrow> Some r) = Some r"
proof -
  assume ne: "rel \<noteq> []"
  then have "sort_key (\<lambda>x. - resultConfidence x) rel \<noteq> []"
    by (metis length_sort length_0_conv)
  then obtain y ys where srt: "sort_key (\<lambda>x. - resultConfidence x) rel = y # ys"
    by (cases "sort_key (\<lambda>x. - resultConfidence x) rel") auto
  from sort_key_first_min [OF srt]
  have "firstMostConfident rel = Some y" by (simp add: firstMostConfident_def)
  with srt show ?thesis by (simp add: sortByConfidenceDesc_def)
qed

lemma foldl_conf:
  "foldl (\<lambda>sum r. dadd sum (resultConfidence r)) a rs = foldl dadd a (map resultConfidence rs)"
  by (induction rs arbitrary: a) simp_all

text \<open>
  C2, amended. For every list of page results in which some category has a positive
  summed confidence (the confidences of its pages added in page order, in doubles), the
  aggregated category is a category of the pages with the highest summed confidence, and
  every category that appears earlier in the page list has a strictly smaller sum: ties
  go to the category that appears first. The confidence is the winner's sum divided by
  the number of its pages, the subtype that of the first page of highest confidence
  among them, and the alternatives are the other categories with a sum strictly above
  0.3, each with confidence min(sum, 1), sorted by that confidence in descending order,
  at most 2.
\<close>

theorem aggregateClassifications_first_appearance:
  assumes pos: "\<exists>c. 0 < summedScore results c"
  shows "let agg = aggregateClassifications results;
             c = resultCategory agg;
             agreeing = filter (\<lambda>r. resultCategory r = c) results;
             cats = map resultCategory results
         in c \<in> set cats
          \<and> (\<forall>c'. summedScore results c' \<le> summedScore results c)
          \<and> (\<forall>c' \<in> set (takeWhile (\<lambda>x. x \<noteq> c) cats). summedScore results c' < summedScore results c)
          \<and> resultConfidence agg = Some (ddiv (summedScore results c) (real (length agreeing)))
          \<and> (\<exists>r. firstMostConfident agreeing = Some r \<and> subtype agg = subtype r)
          \<and> alternativeCategories agg =
              Some (take 2 (sortByConfidenceDesc altConfidence
                (map (\<lambda>c'. \<lparr>altCategory = c', altConfidence = min (summedScore results c') 1\<rparr>)
                   (filter (\<lambda>c'. c' \<noteq> c \<and> summedScore results c' > toDouble 0.3)
                      (firstAppearances cats)))))"
proof -
  define cats where "cats = map resultCategory results"
  define K where "K = firstAppearances cats"
  define S where "S = summedScore results"
  define scores where "scores = map (\<lambda>c. (c, S c)) K"
  have sc: "scoreLoop results [] = scores"
    by (simp add: scoreLoop_spec scores_def K_def cats_def S_def)
  obtain bc bs where best: "bestLoop scores (Unknown, 0) = (bc, bs)"
    by (cases "bestLoop scores (Unknown, 0)")
  define rel where "rel = filter (\<lambda>r. resultCategory r = bc) results"
  from pos obtain c0 where c0: "0 < S c0" by (auto simp: S_def)
  have setK: "set K = set cats" by (simp add: K_def set_firstAppearances)
  have dK: "distinct K" by (simp add: K_def distinct_firstAppearances)
  have keys: "map fst scores = K" by (simp add: scores_def comp_def)
  have val: "snd q = S (fst q)" if "q \<in> set scores" for q
    using that by (auto simp: scores_def)
  have absent: "S c' = 0" if "c' \<notin> set K" for c'
    unfolding S_def using that setK by (intro summedScore_absent) (simp add: cats_def)
  from c0 absent have "c0 \<in> set K" by fastforce
  then have p0: "(c0, S c0) \<in> set scores" by (auto simp: scores_def)
  from bestLoop_first [OF best p0] c0 obtain pre post
    where dec: "scores = pre @ (bc, bs) # post" and before: "\<forall>q \<in> set pre. snd q < bs"
    by auto
  from bestLoop_upper [OF best] have bs0: "0 \<le> bs" and up: "\<forall>p \<in> set scores. snd p \<le> bs"
    by simp_all
  have bin: "(bc, bs) \<in> set scores" using dec by simp
  then have bsS: "bs = S bc" using val by fastforce
  from bin have bcK: "bc \<in> set K" using keys by force
  then have c1: "bc \<in> set cats" using setK by simp
  have c2: "S c' \<le> S bc" for c'
  proof (cases "c' \<in> set K")
    case True
    then have "(c', S c') \<in> set scores" by (auto simp: scores_def)
    with up bsS show ?thesis by fastforce
  next
    case False
    with absent bs0 bsS show ?thesis by simp
  qed
  have c3: "S c' < S bc" if "c' \<in> set (takeWhile (\<lambda>x. x \<noteq> bc) cats)" for c'
  proof -
    have Kdec: "K = map fst pre @ bc # map fst post" using keys dec by (simp flip: keys)
    with dK have "bc \<notin> set (map fst pre)" by auto
    then have "takeWhile (\<lambda>x. x \<noteq> bc) K = map fst pre"
      unfolding Kdec by (rule takeWhile_until)
    moreover from that have "c' \<in> set (takeWhile (\<lambda>x. x \<noteq> bc) K)"
      by (simp add: K_def takeWhile_firstAppearances)
    ultimately obtain q where q: "q \<in> set pre" "fst q = c'" by auto
    then have "q \<in> set scores" using dec by simp
    with val q have "snd q = S c'" by simp
    with before q(1) bsS show ?thesis by fastforce
  qed
  have relne: "rel \<noteq> []"
    using c1 by (auto simp: rel_def cats_def filter_empty_conv)
  have sumrel: "foldl (\<lambda>sum r. dadd sum (resultConfidence r)) 0 rel = S bc"
    by (simp add: foldl_conf S_def summedScore_def rel_def)
  from bestResult_spec [OF relne] obtain rb where
    rb: "firstMostConfident rel = Some rb"
        "(case sortByConfidenceDesc resultConfidence rel of [] \<Rightarrow> None | r # _ \<Rightarrow> Some r) = Some rb"
    by blast
  have agg: "aggregateClassifications results =
     \<lparr>resultCategory = bc,
      resultConfidence = Some (ddiv (S bc) (real (length rel))),
      subtype = subtype rb,
      reasoning = ''Aggregated from '' @ show_nat (length results) @ '' pages. '' @ reasoning rb,
      alternativeCategories = Some (getAlternativeCategories scores bc)\<rparr>"
    unfolding aggregate_unfold [OF sc best] Let_def rel_def [symmetric] rb(2) sumrel
    using relne by simp
  have alt: "getAlternativeCategories scores bc =
     take 2 (sortByConfidenceDesc altConfidence
       (map (\<lambda>c'. \<lparr>altCategory = c', altConfidence = min (S c') 1\<rparr>)
          (filter (\<lambda>c'. c' \<noteq> bc \<and> S c' > toDouble 0.3) K)))"
    unfolding scores_def by (rule alternatives_tabulated)
  have fields: "resultCategory (aggregateClassifications results) = bc"
    "resultConfidence (aggregateClassifications results) = Some (ddiv (S bc) (real (length rel)))"
    "subtype (aggregateClassifications results) = subtype rb"
    "alternativeCategories (aggregateClassifications results) = Some (getAlternativeCategories scores bc)"
    by (simp_all add: agg)
  show ?thesis
    unfolding Let_def fields
    using c1 c2 c3 rb(1) alt
    unfolding S_def cats_def K_def rel_def
    by blast
qed

theorem aggregateClassifications_first_appearance_witness:
  "(\<exists>c. 0 < summedScore
     [\<lparr>resultCategory = Welfare_benefit, resultConfidence = toDouble 0.4, subtype = Some ''universal_credit_letter'', reasoning = ''DWP letterhead'', alternativeCategories = None\<rparr>,
      \<lparr>resultCategory = Welfare_benefit, resultConfidence = toDouble 0.5, subtype = Some ''housing_benefit_letter'', reasoning = ''Council award notice'', alternativeCategories = None\<rparr>,
      \<lparr>resultCategory = Income, resultConfidence = toDouble 0.3, subtype = Some ''payslip'', reasoning = ''Payment table'', alternativeCategories = None\<rparr>] c)
   \<and> resultCategory (aggregateClassifications
     [\<lparr>resultCategory = Welfare_benefit, resultConfidence = toDouble 0.4, subtype = Some ''universal_credit_letter'', reasoning = ''DWP letterhead'', alternativeCategories = None\<rparr>,
      \<lparr>resultCategory = Welfare_benefit, resultConfidence = toDouble 0.5, subtype = Some ''housing_benefit_letter'', reasoning = ''Council award notice'', alternativeCategories = None\<rparr>,
      \<lparr>resultCategory = Income, resultConfidence = toDouble 0.3, subtype = Some ''payslip'', reasoning = ''Payment table'', alternativeCategories = None\<rparr>]) = Welfare_benefit
   \<and> resultConfidence (aggregateClassifications
     [\<lparr>resultCategory = Welfare_benefit, resultConfidence = toDouble 0.4, subtype = Some ''universal_credit_letter'', reasoning = ''DWP letterhead'', alternativeCategories = None\<rparr>,
      \<lparr>resultCategory = Welfare_benefit, resultConfidence = toDouble 0.5, subtype = Some ''housing_benefit_letter'', reasoning = ''Council award notice'', alternativeCategories = None\<rparr>,
      \<lparr>resultCategory = Income, resultConfidence = toDouble 0.3, subtype = Some ''payslip'', reasoning = ''Payment table'', alternativeCategories = None\<rparr>]) = Some (toDouble 0.45)
   \<and> alternativeCategories (aggregateClassifications
     [\<lparr>resultCategory = Welfare_benefit, resultConfidence = toDouble 0.4, subtype = Some ''universal_credit_letter'', reasoning = ''DWP letterhead'', alternativeCategories = None\<rparr>,
      \<lparr>resultCategory = Welfare_benefit, resultConfidence = toDouble 0.5, subtype = Some ''housing_benefit_letter'', reasoning = ''Council award notice'', alternativeCategories = None\<rparr>,
      \<lparr>resultCategory = Income, resultConfidence = toDouble 0.3, subtype = Some ''payslip'', reasoning = ''Payment table'', alternativeCategories = None\<rparr>]) = Some []"
proof -
  define ex where "ex =
     [\<lparr>resultCategory = Welfare_benefit, resultConfidence = toDouble 0.4, subtype = Some ''universal_credit_letter'', reasoning = ''DWP letterhead'', alternativeCategories = None\<rparr>,
      \<lparr>resultCategory = Welfare_benefit, resultConfidence = toDouble 0.5, subtype = Some ''housing_benefit_letter'', reasoning = ''Council award notice'', alternativeCategories = None\<rparr>,
      \<lparr>resultCategory = Income, resultConfidence = toDouble 0.3, subtype = Some ''payslip'', reasoning = ''Payment table'', alternativeCategories = None\<rparr>]"
  define c where "c = resultCategory (aggregateClassifications ex)"
  have Swb: "summedScore ex Welfare_benefit = 8106479329266893 / 2 ^ 53"
    by (simp add: ex_def summedScore_def double_arith)
  have Sinc: "summedScore ex Income = 5404319552844595 / 2 ^ 54"
    by (simp add: ex_def summedScore_def double_arith)
  have lit: "toDouble 0.3 = 5404319552844595 / 2 ^ 54"
    by (simp add: double_arith)
  have cats: "map resultCategory ex = [Welfare_benefit, Welfare_benefit, Income]"
    by (simp add: ex_def)
  have pos: "\<exists>c. 0 < summedScore ex c"
    by (rule exI [of _ Welfare_benefit]) (simp add: Swb)
  note T = aggregateClassifications_first_appearance [OF pos, unfolded Let_def, folded c_def]
  from T have "c \<in> set (map resultCategory ex)" by blast
  then have "c = Welfare_benefit \<or> c = Income" unfolding cats by auto
  moreover from T have "summedScore ex Welfare_benefit \<le> summedScore ex c" by blast
  ultimately have cw: "c = Welfare_benefit" by (auto simp: Swb Sinc)
  have agreeing: "length (filter (\<lambda>r. resultCategory r = Welfare_benefit) ex) = 2"
    by (simp add: ex_def)
  from T have "resultConfidence (aggregateClassifications ex) =
      Some (ddiv (summedScore ex c) (real (length (filter (\<lambda>r. resultCategory r = c) ex))))"
    by blast
  then have conf: "resultConfidence (aggregateClassifications ex) = Some (toDouble 0.45)"
    unfolding cw Swb agreeing by (simp add: double_arith)
  have none: "filter (\<lambda>c'. c' \<noteq> Welfare_benefit \<and> summedScore ex c' > toDouble 0.3)
                (firstAppearances (map resultCategory ex)) = []"
    unfolding cats by (simp add: Sinc lit)
  from T have "alternativeCategories (aggregateClassifications ex) =
      Some (take 2 (sortByConfidenceDesc altConfidence
        (map (\<lambda>c'. \<lparr>altCategory = c', altConfidence = min (summedScore ex c') 1\<rparr>)
           (filter (\<lambda>c'. c' \<noteq> c \<and> summedScore ex c' > toDouble 0.3)
              (firstAppearances (map resultCategory ex))))))"
    by blast
  then have alts: "alternativeCategories (aggregateClassifications ex) = Some []"
    unfolding cw none by (simp add: sortByConfidenceDesc_def)
  from pos cw conf alts show ?thesis unfolding c_def ex_def by blast
qed

text \<open>
  The claim as stated breaks ties by the declaration order of the categories. Two pages,
  income then identity, both with confidence 0.5, reach the aggregation (the first page
  is below 0.85): identity is declared first, the code returns income.
\<close>

theorem aggregateClassifications_tie_counterexample:
  "spec_claimedCategory
     [\<lparr>resultCategory = Income, resultConfidence = toDouble 0.5, subtype = Some ''payslip'', reasoning = ''Pay table'', alternativeCategories = None\<rparr>,
      \<lparr>resultCategory = Identity, resultConfidence = toDouble 0.5, subtype = Some ''passport'', reasoning = ''Photo page'', alternativeCategories = None\<rparr>] = Some Identity
   \<and> resultCategory (classifyPdfDocument
     [\<lparr>resultCategory = Income, resultConfidence = toDouble 0.5, subtype = Some ''payslip'', reasoning = ''Pay table'', alternativeCategories = None\<rparr>,
      \<lparr>resultCategory = Identity, resultConfidence = toDouble 0.5, subtype = Some ''passport'', reasoning = ''Photo page'', alternativeCategories = None\<rparr>]) = Income"
  by (simp add: spec_claimedCategory_def declarationOrder_def summedScore_def
        classifyPdfDocument_def aggregateClassifications_def getOrZero_def double_arith)

subsection \<open>Checklist evaluation\<close>

lemma groupLoop_filter:
  "groupLoop docs groups c =
     (if filter (\<lambda>d. category d = c) docs = [] then groups c
      else Some (orEmpty (groups c) @ filter (\<lambda>d. category d = c) docs))"
proof (induction docs arbitrary: groups)
  case Nil
  show ?case by simp
next
  case (Cons doc rest)
  show ?case
    by (simp add: Cons.IH orEmpty_def split: option.split)
qed

lemma grouped_filter:
  "orEmpty (groupDocumentsByCategory docs c) = filter (\<lambda>d. category d = c) docs"
  by (simp add: groupDocumentsByCategory_def groupLoop_filter orEmpty_def)

lemma evaluateChecklist_filters:
  "evaluateChecklist rt reqs documents applicantData =
     (let (identityItem, n1) =
             evaluateIdentityDocuments rt reqs 0 (filter (\<lambda>d. category d = Identity) documents);
          (addressItem, n2) =
             evaluateProofOfAddress rt reqs n1 (filter (\<lambda>d. category d = Proof_of_address) documents)
      in \<lparr>identity = identityItem,
           income = evaluateIncomeDocuments reqs (filter (\<lambda>d. category d = Income) documents),
           bankStatements = evaluateBankStatements reqs (filter (\<lambda>d. category d = Bank_statement) documents),
           proofOfAddress = addressItem,
           welfareBenefit =
             Some (evaluateWelfareBenefit reqs (filter (\<lambda>d. category d = Welfare_benefit) documents) applicantData),
           medicalEvidence =
             Some (evaluateMedicalEvidence reqs (filter (\<lambda>d. category d = Medical) documents) applicantData),
           tenancyAgreement =
             Some (evaluateTenancy reqs (filter (\<lambda>d. category d = Tenancy) documents) applicantData)\<rparr>)"
  by (simp add: evaluateChecklist_def grouped_filter Let_def)

lemma filter_categorised:
  "c \<noteq> Other \<Longrightarrow> c \<noteq> Unknown \<Longrightarrow>
   filter (\<lambda>d. category d = c) (filter (\<lambda>d. \<not> uncategorised d) docs) = filter (\<lambda>d. category d = c) docs"
  by (induction docs) (auto simp: uncategorised_def)

lemma identity_ids:
  "set (documentIds (fst (evaluateIdentityDocuments rt reqs n ds))) \<subseteq> docId ` set ds"
  by (auto simp: evaluateIdentityDocuments_def Let_def split: prod.splits if_splits)

lemma address_ids:
  "set (documentIds (fst (evaluateProofOfAddress rt reqs n ds))) \<subseteq> docId ` set ds"
  by (auto simp: evaluateProofOfAddress_def Let_def split: prod.splits if_splits)

lemma other_ids:
  "set (documentIds (evaluateIncomeDocuments reqs ds)) \<subseteq> docId ` set ds"
  "set (documentIds (evaluateBankStatements reqs ds)) \<subseteq> docId ` set ds"
  "set (documentIds (evaluateWelfareBenefit reqs ds app)) \<subseteq> docId ` set ds"
  "set (documentIds (evaluateMedicalEvidence reqs ds app)) \<subseteq> docId ` set ds"
  "set (documentIds (evaluateTenancy reqs ds app)) \<subseteq> docId ` set ds"
  by (auto simp: evaluateIncomeDocuments_def evaluateBankStatements_def evaluateWelfareBenefit_def
        evaluateMedicalEvidence_def evaluateTenancy_def Let_def split: if_splits)

lemma allDocumentIds_categorised:
  "set (allDocumentIds (evaluateChecklist rt reqs docs app))
     \<subseteq> docId ` {d \<in> set docs. \<not> uncategorised d}"
proof -
  have sub: "docId ` set (filter (\<lambda>d. category d = c) docs) \<subseteq> docId ` {d \<in> set docs. \<not> uncategorised d}"
    if "c \<noteq> Other" "c \<noteq> Unknown" for c
    using that by (auto simp: uncategorised_def)
  obtain it1 n1 where e1: "evaluateIdentityDocuments rt reqs 0 (filter (\<lambda>d. category d = Identity) docs) = (it1, n1)"
    by (cases "evaluateIdentityDocuments rt reqs 0 (filter (\<lambda>d. category d = Identity) docs)")
  obtain it2 n2 where e2: "evaluateProofOfAddress rt reqs n1 (filter (\<lambda>d. category d = Proof_of_address) docs) = (it2, n2)"
    by (cases "evaluateProofOfAddress rt reqs n1 (filter (\<lambda>d. category d = Proof_of_address) docs)")
  have i1: "set (documentIds it1) \<subseteq> docId ` {d \<in> set docs. \<not> uncategorised d}"
    using identity_ids [of rt reqs 0 "filter (\<lambda>d. category d = Identity) docs"] sub [of Identity]
    unfolding e1 fst_conv by (rule subset_trans) simp_all
  have i2: "set (documentIds it2) \<subseteq> docId ` {d \<in> set docs. \<not> uncategorised d}"
    using address_ids [of rt reqs n1 "filter (\<lambda>d. category d = Proof_of_address) docs"] sub [of Proof_of_address]
    unfolding e2 fst_conv by (rule subset_trans) simp_all
  have i3: "set (documentIds (evaluateIncomeDocuments reqs (filter (\<lambda>d. category d = Income) docs)))
      \<subseteq> docId ` {d \<in> set docs. \<not> uncategorised d}"
    using other_ids(1) sub [of Income] by (rule subset_trans) simp_all
  have i4: "set (documentIds (evaluateBankStatements reqs (filter (\<lambda>d. category d = Bank_statement) docs)))
      \<subseteq> docId ` {d \<in> set docs. \<not> uncategorised d}"
    using other_ids(2) sub [of Bank_statement] by (rule subset_trans) simp_all
  have i5: "set (documentIds (evaluateWelfareBenefit reqs (filter (\<lambda>d. category d = Welfare_benefit) docs) app))
      \<subseteq> docId ` {d \<in> set docs. \<not> uncategorised d}"
    using other_ids(3) sub [of Welfare_benefit] by (rule subset_trans) simp_all
  have i6: "set (documentIds (evaluateMedicalEvidence reqs (filter (\<lambda>d. category d = Medical) docs) app))
      \<subseteq> docId ` {d \<in> set docs. \<not> uncategorised d}"
    using other_ids(4) sub [of Medical] by (rule subset_trans) simp_all
  have i7: "set (documentIds (evaluateTenancy reqs (filter (\<lambda>d. category d = Tenancy) docs) app))
      \<subseteq> docId ` {d \<in> set docs. \<not> uncategorised d}"
    using other_ids(5) sub [of Tenancy] by (rule subset_trans) simp_all
  show ?thesis
    unfolding evaluateChecklist_filters e1 e2 Let_def prod.case allDocumentIds_def checklistEntries_def
    using i1 i2 i3 i4 i5 i6 i7 by (simp add: itemIds_def)
qed

text \<open>
  C10. For every list of documents and every applicant snapshot, documents of category
  other or unknown have no effect on the checklist: \<open>evaluateChecklist\<close> returns the
  same status with and without them, and, document identifiers being unique, no item
  lists the identifier of such a document.
\<close>

theorem evaluateChecklist_ignores_uncategorised:
  "evaluateChecklist rt reqs docs app
     = evaluateChecklist rt reqs (filter (\<lambda>d. \<not> uncategorised d) docs) app
   \<and> (distinct (map docId docs) \<longrightarrow>
        (\<forall>d \<in> set docs. uncategorised d \<longrightarrow>
           docId d \<notin> set (allDocumentIds (evaluateChecklist rt reqs docs app))))"
proof
  show "evaluateChecklist rt reqs docs app
     = evaluateChecklist rt reqs (filter (\<lambda>d. \<not> uncategorised d) docs) app"
    by (simp add: evaluateChecklist_filters filter_categorised del: filter_filter)
  show "distinct (map docId docs) \<longrightarrow>
        (\<forall>d \<in> set docs. uncategorised d \<longrightarrow>
           docId d \<notin> set (allDocumentIds (evaluateChecklist rt reqs docs app)))"
  proof (intro impI ballI)
    fix d assume dist: "distinct (map docId docs)" and d: "d \<in> set docs" and u: "uncategorised d"
    show "docId d \<notin> set (allDocumentIds (evaluateChecklist rt reqs docs app))"
    proof
      assume "docId d \<in> set (allDocumentIds (evaluateChecklist rt reqs docs app))"
      with allDocumentIds_categorised obtain d' where d': "d' \<in> set docs" "\<not> uncategorised d'" "docId d' = docId d"
        by fastforce
      from dist have "inj_on docId (set docs)" by (simp add: distinct_map)
      with d d' have "d' = d" by (auto dest: inj_onD)
      with u d' show False by simp
    qed
  qed
qed

theorem evaluateChecklist_ignores_uncategorised_witness:
  \<open>distinct (map docId
      [\<lparr>docId = ''doc-1'', applicationId = ''app-1'', originalFileName = ''passport.png'',
        category = Identity, classificationConfidence = toDouble 0.95, processingStatus = Completed,
        extractedData = Some \<lparr>documentType = Identity, dataConfidence = toDouble 0.9,
           extractedAt = ''2025-03-01T10:00:00.000Z'',
           dataFields =
             [(''fullName'', \<lparr>fieldValue = Some (Str ''Ada Byron''), fieldConfidence = toDouble 0.9, fieldSource = None, fieldIssues = None\<rparr>),
              (''expiryDate'', \<lparr>fieldValue = Some (Str ''2030-01-01''), fieldConfidence = toDouble 0.9, fieldSource = None, fieldIssues = None\<rparr>)]\<rparr>,
        extractionVersion = 1, completenessScore = 100, completenessIssues = [],
        createdAt = ''2025-03-01T10:00:00.000Z''\<rparr>,
       \<lparr>docId = ''doc-2'', applicationId = ''app-1'', originalFileName = ''flyer.png'',
        category = Other, classificationConfidence = toDouble 0.8, processingStatus = Completed,
        extractedData = None,
        extractionVersion = 0, completenessScore = 0, completenessIssues = [],
        createdAt = ''2025-03-01T10:00:00.000Z''\<rparr>,
       \<lparr>docId = ''doc-3'', applicationId = ''app-1'', originalFileName = ''scan.png'',
        category = Unknown, classificationConfidence = toDouble 0.2, processingStatus = Completed,
        extractedData = None,
        extractionVersion = 0, completenessScore = 0, completenessIssues = [],
        createdAt = ''2025-03-01T10:00:00.000Z''\<rparr>])
   \<and> evaluateChecklist (\<lparr>clock = (\<lambda>i. 1700000000000), parseDate = (\<lambda>s. if s = ''2030-01-01'' then Some 1893456000000 else None), subtractMonths = (\<lambda>t m. Some (t - m * 2629800000))\<rparr>) DEFAULT_REQUIREMENTS
      [\<lparr>docId = ''doc-1'', applicationId = ''app-1'', originalFileName = ''passport.png'',
        category = Identity, classificationConfidence = toDouble 0.95, processingStatus = Completed,
        extractedData = Some \<lparr>documentType = Identity, dataConfidence = toDouble 0.9,
           extractedAt = ''2025-03-01T10:00:00.000Z'',
           dataFields =
             [(''fullName'', \<lparr>fieldValue = Some (Str ''Ada Byron''), fieldConfidence = toDouble 0.9, fieldSource = None, fieldIssues = None\<rparr>),
              (''expiryDate'', \<lparr>fieldValue = Some (Str ''2030-01-01''), fieldConfidence = toDouble 0.9, fieldSource = None, fieldIssues = None\<rparr>)]\<rparr>,
        extractionVersion = 1, completenessScore = 100, completenessIssues = [],
        createdAt = ''2025-03-01T10:00:00.000Z''\<rparr>,
       \<lparr>docId = ''doc-2'', applicationId = ''app-1'', originalFileName = ''flyer.png'',
        category = Other, classificationConfidence = toDouble 0.8, processingStatus = Completed,
        extractedData = None,
        extractionVersion = 0, completenessScore = 0, completenessIssues = [],
        createdAt = ''2025-03-01T10:00:00.000Z''\<rparr>,
       \<lparr>docId = ''doc-3'', applicationId = ''app-1'', originalFileName = ''scan.png'',
        category = Unknown, classificationConfidence = toDouble 0.2, processingStatus = Completed,
        extractedData = None,
        extractionVersion = 0, completenessScore = 0, completenessIssues = [],
        createdAt = ''2025-03-01T10:00:00.000Z''\<rparr>] None
     = evaluateChecklist (\<lparr>clock = (\<lambda>i. 1700000000000), parseDate = (\<lambda>s. if s = ''2030-01-01'' then Some 1893456000000 else None), subtractMonths = (\<lambda>t m. Some (t - m * 2629800000))\<rparr>) DEFAULT_REQUIREMENTS
      [\<lparr>docId = ''doc-1'', applicationId = ''app-1'', originalFileName = ''passport.png'',
        category = Identity, classificationConfidence = toDouble 0.95, processingStatus = Completed,
        extractedData = Some \<lparr>documentType = Identity, dataConfidence = toDouble 0.9,
           extractedAt = ''2025-03-01T10:00:00.000Z'',
           dataFields =
             [(''fullName'', \<lparr>fieldValue = Some (Str ''Ada Byron''), fieldConfidence = toDouble 0.9, fieldSource = None, fieldIssues = None\<rparr>),
              (''expiryDate'', \<lparr>fieldValue = Some (Str ''2030-01-01''), fieldConfidence = toDouble 0.9, fieldSource = None, fieldIssues = None\<rparr>)]\<rparr>,
        extractionVersion = 1, completenessScore = 100, completenessIssues = [],
        createdAt = ''2025-03-01T10:00:00.000Z''\<rparr>] None
   \<and> ''doc-2'' \<notin> set (allDocumentIds (evaluateChecklist (\<lparr>clock = (\<lambda>i. 1700000000000), parseDate = (\<lambda>s. if s = ''2030-01-01'' then Some 1893456000000 else None), subtractMonths = (\<lambda>t m. Some (t - m * 2629800000))\<rparr>) DEFAULT_REQUIREMENTS
      [\<lparr>docId = ''doc-1'', applicationId = ''app-1'', originalFileName = ''passport.png'',
        category = Identity, classificationConfidence = toDouble 0.95, processingStatus = Completed,
        extractedData = Some \<lparr>documentType = Identity, dataConfidence = toDouble 0.9,
           extractedAt = ''2025-03-01T10:00:00.000Z'',
           dataFields =
             [(''fullName'', \<lparr>fieldValue = Some (Str ''Ada Byron''), fieldConfidence = toDouble 0.9, fieldSource = None, fieldIssues = None\<rparr>),
              (''expiryDate'', \<lparr>fieldValue = Some (Str ''2030-01-01''), fieldConfidence = toDouble 0.9, fieldSource = None, fieldIssues = None\<rparr>)]\<rparr>,
        extractionVersion = 1, completenessScore = 100, completenessIssues = [],
        createdAt = ''2025-03-01T10:00:00.000Z''\<rparr>,
       \<lparr>docId = ''doc-2'', applicationId = ''app-1'', originalFileName = ''flyer.png'',
        category = Other, classificationConfidence = toDouble 0.8, processingStatus = Completed,
        extractedData = None,
        extractionVersion = 0, completenessScore = 0, completenessIssues = [],
        createdAt = ''2025-03-01T10:00:00.000Z''\<rparr>,
       \<lparr>docId = ''doc-3'', applicationId = ''app-1'', originalFileName = ''scan.png'',
        category = Unknown, classificationConfidence = toDouble 0.2, processingStatus = Completed,
        extractedData = None,
        extractionVersion = 0, completenessScore = 0, completenessIssues = [],
        createdAt = ''2025-03-01T10:00:00.000Z''\<rparr>] None))\<close>
proof -
  define rt where \<open>rt = \<lparr>clock = (\<lambda>i. 1700000000000), parseDate = (\<lambda>s. if s = ''2030-01-01'' then Some 1893456000000 else None), subtractMonths = (\<lambda>t m. Some (t - m * 2629800000))\<rparr>\<close>
  define passport where \<open>passport =
      \<lparr>docId = ''doc-1'', applicationId = ''app-1'', originalFileName = ''passport.png'',
        category = Identity, classificationConfidence = toDouble 0.95, processingStatus = Completed,
        extractedData = Some \<lparr>documentType = Identity, dataConfidence = toDouble 0.9,
           extractedAt = ''2025-03-01T10:00:00.000Z'',
           dataFields =
             [(''fullName'', \<lparr>fieldValue = Some (Str ''Ada Byron''), fieldConfidence = toDouble 0.9, fieldSource = None, fieldIssues = None\<rparr>),
              (''expiryDate'', \<lparr>fieldValue = Some (Str ''2030-01-01''), fieldConfidence = toDouble 0.9, fieldSource = None, fieldIssues = None\<rparr>)]\<rparr>,
        extractionVersion = 1, completenessScore = 100, completenessIssues = [],
        createdAt = ''2025-03-01T10:00:00.000Z''\<rparr>\<close>
  define flyer where \<open>flyer =
      \<lparr>docId = ''doc-2'', applicationId = ''app-1'', originalFileName = ''flyer.png'',
        category = Other, classificationConfidence = toDouble 0.8, processingStatus = Completed,
        extractedData = None,
        extractionVersion = 0, completenessScore = 0, completenessIssues = [],
        createdAt = ''2025-03-01T10:00:00.000Z''\<rparr>\<close>
  define blurred where \<open>blurred =
      \<lparr>docId = ''doc-3'', applicationId = ''app-1'', originalFileName = ''scan.png'',
        category = Unknown, classificationConfidence = toDouble 0.2, processingStatus = Completed,
        extractedData = None,
        extractionVersion = 0, completenessScore = 0, completenessIssues = [],
        createdAt = ''2025-03-01T10:00:00.000Z''\<rparr>\<close>
  have dist: \<open>distinct (map docId [passport, flyer, blurred])\<close>
    by (simp add: passport_def flyer_def blurred_def)
  have kept: \<open>filter (\<lambda>d. \<not> uncategorised d) [passport, flyer, blurred] = [passport]\<close>
    by (simp add: passport_def flyer_def blurred_def uncategorised_def)
  have fl: \<open>uncategorised flyer\<close> \<open>docId flyer = ''doc-2''\<close>
    by (simp_all add: flyer_def uncategorised_def)
  note T = evaluateChecklist_ignores_uncategorised
             [of rt DEFAULT_REQUIREMENTS \<open>[passport, flyer, blurred]\<close> None, unfolded kept]
  from T have same: \<open>evaluateChecklist rt DEFAULT_REQUIREMENTS [passport, flyer, blurred] None
     = evaluateChecklist rt DEFAULT_REQUIREMENTS [passport] None\<close> by blast
  from T dist have \<open>\<forall>d \<in> set [passport, flyer, blurred]. uncategorised d \<longrightarrow>
      docId d \<notin> set (allDocumentIds (evaluateChecklist rt DEFAULT_REQUIREMENTS [passport, flyer, blurred] None))\<close>
    by blast
  with fl have \<open>''doc-2'' \<notin> set (allDocumentIds
      (evaluateChecklist rt DEFAULT_REQUIREMENTS [passport, flyer, blurred] None))\<close>
    by fastforce
  with dist same show ?thesis
    unfolding rt_def passport_def flyer_def blurred_def by blast
qed

subsection \<open>Medical evidence\<close>

lemma completenessIssues_below_empty:
  "(completenessIssues_below threshold msg docs = []) = (\<not> list_ex (\<lambda>d. completenessScore d < threshold) docs)"
  by (induction docs) (auto simp: completenessIssues_below_def)

lemma needsMedicalEvidence_iff:
  "needsMedicalEvidence app =
     (\<exists>a m. app = Some a \<and> m \<in> set (householdMembers a) \<and> requiresSupport m = Some True)"
  by (cases app) (auto simp: needsMedicalEvidence_def list_ex_iff)

text \<open>
  C7, amended. The medical evidence item is required iff the requirements say so or
  some household member is flagged as requiring support. Without documents it is
  missing, with the issue \<open>Medical evidence required for support needs assessment\<close>
  when required and no issue list otherwise. With at least one document it is verified,
  without issues, whatever the completeness scores of the documents: the
  completeness-threshold pattern (pending when some document scores below the threshold,
  verified otherwise) is that of the welfare benefit item, with threshold 70, and of the
  tenancy item, with threshold 60.
\<close>

theorem evaluateMedicalEvidence_always_verified:
  "required (evaluateMedicalEvidence reqs docs app) =
     (conditionalRequired (reqMedicalEvidence reqs)
      \<or> (\<exists>a m. app = Some a \<and> m \<in> set (householdMembers a) \<and> requiresSupport m = Some True))
   \<and> (docs = [] \<longrightarrow>
        status (evaluateMedicalEvidence reqs docs app) = Missing
        \<and> documentIds (evaluateMedicalEvidence reqs docs app) = []
        \<and> issues (evaluateMedicalEvidence reqs docs app) =
            (if required (evaluateMedicalEvidence reqs docs app)
             then Some [''Medical evidence required for support needs assessment''] else None))
   \<and> (docs \<noteq> [] \<longrightarrow>
        status (evaluateMedicalEvidence reqs docs app) = Verified
        \<and> documentIds (evaluateMedicalEvidence reqs docs app) = map docId docs
        \<and> issues (evaluateMedicalEvidence reqs docs app) = None
        \<and> status (evaluateWelfareBenefit reqs docs app) = spec_thresholdStatus 70 docs
        \<and> status (evaluateTenancy reqs docs app) = spec_thresholdStatus 60 docs)"
  by (auto simp: evaluateMedicalEvidence_def evaluateWelfareBenefit_def evaluateTenancy_def
        needsMedicalEvidence_iff spec_thresholdStatus_def completenessIssues_below_empty Let_def)

theorem evaluateMedicalEvidence_always_verified_witness:
  \<open>([] :: Document list) = []
   \<and> required (evaluateMedicalEvidence DEFAULT_REQUIREMENTS []
       (Some \<lparr>firstName = ''Ada'', lastName = ''Byron'', householdSize = 2,
          householdMembers = [\<lparr>memberFirstName = ''Lou'', memberLastName = ''Byron'', relationship = ''child'', requiresSupport = Some True\<rparr>]\<rparr>)) = True
   \<and> status (evaluateMedicalEvidence DEFAULT_REQUIREMENTS []
       (Some \<lparr>firstName = ''Ada'', lastName = ''Byron'', householdSize = 2,
          householdMembers = [\<lparr>memberFirstName = ''Lou'', memberLastName = ''Byron'', relationship = ''child'', requiresSupport = Some True\<rparr>]\<rparr>)) = Missing
   \<and> issues (evaluateMedicalEvidence DEFAULT_REQUIREMENTS []
       (Some \<lparr>firstName = ''Ada'', lastName = ''Byron'', householdSize = 2,
          householdMembers = [\<lparr>memberFirstName = ''Lou'', memberLastName = ''Byron'', relationship = ''child'', requiresSupport = Some True\<rparr>]\<rparr>)) = Some [''Medical evidence required for support needs assessment'']
   \<and> [\<lparr>docId = ''doc-4'', applicationId = ''app-1'', originalFileName = ''gp-letter.pdf'',
        category = Medical, classificationConfidence = toDouble 0.9, processingStatus = Completed,
        extractedData = Some \<lparr>documentType = Medical, dataConfidence = toDouble 0.9,
           extractedAt = ''2025-03-01T10:00:00.000Z'',
           dataFields =
             [(''patientName'', \<lparr>fieldValue = Some (Str ''Ada Byron''), fieldConfidence = toDouble 0.9, fieldSource = None, fieldIssues = None\<rparr>)]\<rparr>,
        extractionVersion = 1, completenessScore = 33, completenessIssues = [''Required field "Issuer Name" is missing''],
        createdAt = ''2025-03-01T10:00:00.000Z''\<rparr>] \<noteq> []
   \<and> status (evaluateMedicalEvidence DEFAULT_REQUIREMENTS
       [\<lparr>docId = ''doc-4'', applicationId = ''app-1'', originalFileName = ''gp-letter.pdf'',
        category = Medical, classificationConfidence = toDouble 0.9, processingStatus = Completed,
        extractedData = Some \<lparr>documentType = Medical, dataConfidence = toDouble 0.9,
           extractedAt = ''2025-03-01T10:00:00.000Z'',
           dataFields =
             [(''patientName'', \<lparr>fieldValue = Some (Str ''Ada Byron''), fieldConfidence = toDouble 0.9, fieldSource = None, fieldIssues = None\<rparr>)]\<rparr>,
        extractionVersion = 1, completenessScore = 33, completenessIssues = [''Required field "Issuer Name" is missing''],
        createdAt = ''2025-03-01T10:00:00.000Z''\<rparr>] None) = Verified
   \<and> required (evaluateMedicalEvidence DEFAULT_REQUIREMENTS
       [\<lparr>docId = ''doc-4'', applicationId = ''app-1'', originalFileName = ''gp-letter.pdf'',
        category = Medical, classificationConfidence = toDouble 0.9, processingStatus = Completed,
        extractedData = Some \<lparr>documentType = Medical, dataConfidence = toDouble 0.9,
           extractedAt = ''2025-03-01T10:00:00.000Z'',
           dataFields =
             [(''patientName'', \<lparr>fieldValue = Some (Str ''Ada Byron''), fieldConfidence = toDouble 0.9, fieldSource = None, fieldIssues = None\<rparr>)]\<rparr>,
        extractionVersion = 1, completenessScore = 33, completenessIssues = [''Required field "Issuer Name" is missing''],
        createdAt = ''2025-03-01T10:00:00.000Z''\<rparr>] None) = False
   \<and> status (evaluateWelfareBenefit DEFAULT_REQUIREMENTS
       [\<lparr>docId = ''doc-4'', applicationId = ''app-1'', originalFileName = ''gp-letter.pdf'',
        category = Medical, classificationConfidence = toDouble 0.9, processingStatus = Completed,
        extractedData = Some \<lparr>documentType = Medical, dataConfidence = toDouble 0.9,
           extractedAt = ''2025-03-01T10:00:00.000Z'',
           dataFields =
             [(''patientName'', \<lparr>fieldValue = Some (Str ''Ada Byron''), fieldConfidence = toDouble 0.9, fieldSource = None, fieldIssues = None\<rparr>)]\<rparr>,
        extractionVersion = 1, completenessScore = 33, completenessIssues = [''Required field "Issuer Name" is missing''],
        createdAt = ''2025-03-01T10:00:00.000Z''\<rparr>] None) = Pending\<close>
  using evaluateMedicalEvidence_always_verified [of DEFAULT_REQUIREMENTS \<open>[]\<close>
       \<open>Some \<lparr>firstName = ''Ada'', lastName = ''Byron'', householdSize = 2,
          householdMembers = [\<lparr>memberFirstName = ''Lou'', memberLastName = ''Byron'', relationship = ''child'', requiresSupport = Some True\<rparr>]\<rparr>\<close>]
    evaluateMedicalEvidence_always_verified [of DEFAULT_REQUIREMENTS
       \<open>[\<lparr>docId = ''doc-4'', applicationId = ''app-1'', originalFileName = ''gp-letter.pdf'',
        category = Medical, classificationConfidence = toDouble 0.9, processingStatus = Completed,
        extractedData = Some \<lparr>documentType = Medical, dataConfidence = toDouble 0.9,
           extractedAt = ''2025-03-01T10:00:00.000Z'',
           dataFields =
             [(''patientName'', \<lparr>fieldValue = Some (Str ''Ada Byron''), fieldConfidence = toDouble 0.9, fieldSource = None, fieldIssues = None\<rparr>)]\<rparr>,
        extractionVersion = 1, completenessScore = 33, completenessIssues = [''Required field "Issuer Name" is missing''],
        createdAt = ''2025-03-01T10:00:00.000Z''\<rparr>]\<close> None]
  by (simp add: DEFAULT_REQUIREMENTS_def spec_thresholdStatus_def)

text \<open>
  The claim as stated has the medical item follow the completeness-threshold pattern.
  One medical document with completeness score 33 is below both thresholds: the welfare
  and tenancy evaluators return pending on it, the medical evaluator verified.
\<close>

theorem evaluateMedicalEvidence_pattern_counterexample:
  \<open>status (evaluateMedicalEvidence DEFAULT_REQUIREMENTS
       [\<lparr>docId = ''doc-4'', applicationId = ''app-1'', originalFileName = ''gp-letter.pdf'',
        category = Medical, classificationConfidence = toDouble 0.9, processingStatus = Completed,
        extractedData = Some \<lparr>documentType = Medical, dataConfidence = toDouble 0.9,
           extractedAt = ''2025-03-01T10:00:00.000Z'',
           dataFields =
             [(''patientName'', \<lparr>fieldValue = Some (Str ''Ada Byron''), fieldConfidence = toDouble 0.9, fieldSource = None, fieldIssues = None\<rparr>)]\<rparr>,
        extractionVersion = 1, completenessScore = 33, completenessIssues = [''Required field "Issuer Name" is missing''],
        createdAt = ''2025-03-01T10:00:00.000Z''\<rparr>] None) = Verified
   \<and> spec_thresholdStatus 60
       [\<lparr>docId = ''doc-4'', applicationId = ''app-1'', originalFileName = ''gp-letter.pdf'',
        category = Medical, classificationConfidence = toDouble 0.9, processingStatus = Completed,
        extractedData = Some \<lparr>documentType = Medical, dataConfidence = toDouble 0.9,
           extractedAt = ''2025-03-01T10:00:00.000Z'',
           dataFields =
             [(''patientName'', \<lparr>fieldValue = Some (Str ''Ada Byron''), fieldConfidence = toDouble 0.9, fieldSource = None, fieldIssues = None\<rparr>)]\<rparr>,
        extractionVersion = 1, completenessScore = 33, completenessIssues = [''Required field "Issuer Name" is missing''],
        createdAt = ''2025-03-01T10:00:00.000Z''\<rparr>] = Pending
   \<and> spec_thresholdStatus 70
       [\<lparr>docId = ''doc-4'', applicationId = ''app-1'', originalFileName = ''gp-letter.pdf'',
        category = Medical, classificationConfidence = toDouble 0.9, processingStatus = Completed,
        extractedData = Some \<lparr>documentType = Medical, dataConfidence = toDouble 0.9,
           extractedAt = ''2025-03-01T10:00:00.000Z'',
           dataFields =
             [(''patientName'', \<lparr>fieldValue = Some (Str ''Ada Byron''), fieldConfidence = toDouble 0.9, fieldSource = None, fieldIssues = None\<rparr>)]\<rparr>,
        extractionVersion = 1, completenessScore = 33, completenessIssues = [''Required field "Issuer Name" is missing''],
        createdAt = ''2025-03-01T10:00:00.000Z''\<rparr>] = Pending
   \<and> status (evaluateWelfareBenefit DEFAULT_REQUIREMENTS
       [\<lparr>docId = ''doc-4'', applicationId = ''app-1'', originalFileName = ''gp-letter.pdf'',
        category = Medical, classificationConfidence = toDouble 0.9, processingStatus = Completed,
        extractedData = Some \<lparr>documentType = Medical, dataConfidence = toDouble 0.9,
           extractedAt = ''2025-03-01T10:00:00.000Z'',
           dataFields =
             [(''patientName'', \<lparr>fieldValue = Some (Str ''Ada Byron''), fieldConfidence = toDouble 0.9, fieldSource = None, fieldIssues = None\<rparr>)]\<rparr>,
        extractionVersion = 1, completenessScore = 33, completenessIssues = [''Required field "Issuer Name" is missing''],
        createdAt = ''2025-03-01T10:00:00.000Z''\<rparr>] None) = Pending
   \<and> status (evaluateTenancy DEFAULT_REQUIREMENTS
       [\<lparr>docId = ''doc-4'', applicationId = ''app-1'', originalFileName = ''gp-letter.pdf'',
        category = Medical, classificationConfidence = toDouble 0.9, processingStatus = Completed,
        extractedData = Some \<lparr>documentType = Medical, dataConfidence = toDouble 0.9,
           extractedAt = ''2025-03-01T10:00:00.000Z'',
           dataFields =
             [(''patientName'', \<lparr>fieldValue = Some (Str ''Ada Byron''), fieldConfidence = toDouble 0.9, fieldSource = None, fieldIssues = None\<rparr>)]\<rparr>,
        extractionVersion = 1, completenessScore = 33, completenessIssues = [''Required field "Issuer Name" is missing''],
        createdAt = ''2025-03-01T10:00:00.000Z''\<rparr>] None) = Pending\<close>
  by (simp add: evaluateMedicalEvidence_def evaluateWelfareBenefit_def evaluateTenancy_def
        spec_thresholdStatus_def completenessIssues_below_def DEFAULT_REQUIREMENTS_def)

subsection \<open>Dependence on the clock\<close>

lemma identityStep_agree:
  assumes "\<And>s i j. stringFieldValue ''expiryDate'' doc = Some s \<Longrightarrow>
             dateLess (parseDate rt1 s) (Some (clock rt1 i)) = dateLess (parseDate rt2 s) (Some (clock rt2 j))"
  shows "(case identityStep rt1 req doc (is0, vs, n1) of (a, b, n) \<Rightarrow> (a, b))
       = (case identityStep rt2 req doc (is0, vs, n2) of (a, b, n) \<Rightarrow> (a, b))"
proof (cases "if validityCheck req = Some True then stringFieldValue ''expiryDate'' doc else None")
  case None
  then show ?thesis by (simp add: identityStep_def Let_def)
next
  case (Some s)
  then have "stringFieldValue ''expiryDate'' doc = Some s" by (simp split: if_splits)
  from assms [OF this, of n1 n2] Some show ?thesis
    by (simp add: identityStep_def Let_def)
qed

lemma identityLoop_agree:
  assumes "\<And>d s i j. d \<in> set ds \<Longrightarrow> stringFieldValue ''expiryDate'' d = Some s \<Longrightarrow>
             dateLess (parseDate rt1 s) (Some (clock rt1 i)) = dateLess (parseDate rt2 s) (Some (clock rt2 j))"
  shows "(case identityLoop rt1 req ds (is0, vs, n1) of (a, b, n) \<Rightarrow> (a, b))
       = (case identityLoop rt2 req ds (is0, vs, n2) of (a, b, n) \<Rightarrow> (a, b))"
  using assms
proof (induction ds arbitrary: is0 vs n1 n2)
  case Nil
  show ?case by simp
next
  case (Cons d ds)
  obtain a1 b1 m1 where s1: "identityStep rt1 req d (is0, vs, n1) = (a1, b1, m1)"
    by (cases "identityStep rt1 req d (is0, vs, n1)")
  obtain a2 b2 m2 where s2: "identityStep rt2 req d (is0, vs, n2) = (a2, b2, m2)"
    by (cases "identityStep rt2 req d (is0, vs, n2)")
  have "(case identityStep rt1 req d (is0, vs, n1) of (a, b, n) \<Rightarrow> (a, b))
      = (case identityStep rt2 req d (is0, vs, n2) of (a, b, n) \<Rightarrow> (a, b))"
    by (rule identityStep_agree) (rule Cons.prems, simp_all)
  with s1 s2 have eq: "a2 = a1" "b2 = b1" by simp_all
  have "(case identityLoop rt1 req ds (a1, b1, m1) of (a, b, n) \<Rightarrow> (a, b))
      = (case identityLoop rt2 req ds (a1, b1, m2) of (a, b, n) \<Rightarrow> (a, b))"
    by (rule Cons.IH) (rule Cons.prems, simp_all)
  then show ?case by (simp add: s1 s2 eq)
qed

lemma evaluateIdentityDocuments_agree:
  assumes "\<And>d s i j. d \<in> set ds \<Longrightarrow> stringFieldValue ''expiryDate'' d = Some s \<Longrightarrow>
             dateLess (parseDate rt1 s) (Some (clock rt1 i)) = dateLess (parseDate rt2 s) (Some (clock rt2 j))"
  shows "fst (evaluateIdentityDocuments rt1 reqs n1 ds) = fst (evaluateIdentityDocuments rt2 reqs n2 ds)"
proof -
  obtain a1 b1 m1 where l1: "identityLoop rt1 (reqIdentity reqs) ds ([], [], n1) = (a1, b1, m1)"
    by (cases "identityLoop rt1 (reqIdentity reqs) ds ([], [], n1)")
  obtain a2 b2 m2 where l2: "identityLoop rt2 (reqIdentity reqs) ds ([], [], n2) = (a2, b2, m2)"
    by (cases "identityLoop rt2 (reqIdentity reqs) ds ([], [], n2)")
  have "(case identityLoop rt1 (reqIdentity reqs) ds ([], [], n1) of (a, b, n) \<Rightarrow> (a, b))
      = (case identityLoop rt2 (reqIdentity reqs) ds ([], [], n2) of (a, b, n) \<Rightarrow> (a, b))"
    by (rule identityLoop_agree) (rule assms)
  with l1 l2 have "a2 = a1" "b2 = b1" by simp_all
  with l1 l2 show ?thesis by (simp add: evaluateIdentityDocuments_def Let_def)
qed

lemma addressLoop_agree:
  assumes "\<And>d s i j. d \<in> set ds \<Longrightarrow> stringFieldValue ''documentDate'' d = Some s \<Longrightarrow>
             dateLess (parseDate rt1 s) (subtractMonths rt1 (clock rt1 i) (maxAgeMonths req))
             = dateLess (parseDate rt2 s) (subtractMonths rt2 (clock rt2 j) (maxAgeMonths req))"
  shows "fst (addressLoop rt1 req ds (is0, n1)) = fst (addressLoop rt2 req ds (is0, n2))"
  using assms
proof (induction ds arbitrary: is0 n1 n2)
  case Nil
  show ?case by simp
next
  case (Cons d ds)
  show ?case
  proof (cases "stringFieldValue ''documentDate'' d")
    case None
    have "fst (addressLoop rt1 req ds (is0, n1)) = fst (addressLoop rt2 req ds (is0, n2))"
      by (rule Cons.IH) (rule Cons.prems, simp_all)
    with None show ?thesis by (simp add: addressStep_def)
  next
    case (Some s)
    have c: "dateLess (parseDate rt1 s) (subtractMonths rt1 (clock rt1 n1) (maxAgeMonths req))
             = dateLess (parseDate rt2 s) (subtractMonths rt2 (clock rt2 n2) (maxAgeMonths req))"
      by (rule Cons.prems [of d]) (simp_all add: Some)
    have "fst (addressLoop rt1 req ds (is', Suc n1)) = fst (addressLoop rt2 req ds (is', Suc n2))" for is'
      by (rule Cons.IH) (rule Cons.prems, simp_all)
    with Some c show ?thesis by (simp add: addressStep_def)
  qed
qed

lemma evaluateProofOfAddress_agree:
  assumes "\<And>d s i j. d \<in> set ds \<Longrightarrow> stringFieldValue ''documentDate'' d = Some s \<Longrightarrow>
             dateLess (parseDate rt1 s) (subtractMonths rt1 (clock rt1 i) (maxAgeMonths (reqProofOfAddress reqs)))
             = dateLess (parseDate rt2 s) (subtractMonths rt2 (clock rt2 j) (maxAgeMonths (reqProofOfAddress reqs)))"
  shows "fst (evaluateProofOfAddress rt1 reqs n1 ds) = fst (evaluateProofOfAddress rt2 reqs n2 ds)"
proof -
  obtain a1 m1 where l1: "addressLoop rt1 (reqProofOfAddress reqs) ds ([], n1) = (a1, m1)"
    by (cases "addressLoop rt1 (reqProofOfAddress reqs) ds ([], n1)")
  obtain a2 m2 where l2: "addressLoop rt2 (reqProofOfAddress reqs) ds ([], n2) = (a2, m2)"
    by (cases "addressLoop rt2 (reqProofOfAddress reqs) ds ([], n2)")
  have "fst (addressLoop rt1 (reqProofOfAddress reqs) ds ([], n1))
      = fst (addressLoop rt2 (reqProofOfAddress reqs) ds ([], n2))"
    by (rule addressLoop_agree) (rule assms)
  with l1 l2 have "a2 = a1" by simp
  with l1 l2 show ?thesis by (simp add: evaluateProofOfAddress_def Let_def)
qed

lemma evaluateChecklist_items:
  "evaluateChecklist rt reqs documents applicantData =
     \<lparr>identity = fst (evaluateIdentityDocuments rt reqs 0 (filter (\<lambda>d. category d = Identity) documents)),
      income = evaluateIncomeDocuments reqs (filter (\<lambda>d. category d = Income) documents),
      bankStatements = evaluateBankStatements reqs (filter (\<lambda>d. category d = Bank_statement) documents),
      proofOfAddress =
        fst (evaluateProofOfAddress rt reqs
               (snd (evaluateIdentityDocuments rt reqs 0 (filter (\<lambda>d. category d = Identity) documents)))
               (filter (\<lambda>d. category d = Proof_of_address) documents)),
      welfareBenefit =
        Some (evaluateWelfareBenefit reqs (filter (\<lambda>d. category d = Welfare_benefit) documents) applicantData),
      medicalEvidence =
        Some (evaluateMedicalEvidence reqs (filter (\<lambda>d. category d = Medical) documents) applicantData),
      tenancyAgreement =
        Some (evaluateTenancy reqs (filter (\<lambda>d. category d = Tenancy) documents) applicantData)\<rparr>"
  by (simp add: evaluateChecklist_filters Let_def split: prod.splits)

text \<open>
  C1, amended. \<open>evaluateChecklist\<close> reads the wall clock: once for each identity
  document that has a non-empty string \<open>expiryDate\<close> (and is not in a failed processing
  state), to compare the expiry date with the current time, and once for each
  proof-of-address document that has a non-empty string \<open>documentDate\<close>, to compare it
  with the current time minus the maximum age. Two calls with the same documents and
  applicant data return the same status whenever each of these comparisons comes out
  the same in both calls; in particular the result does not depend on the clock when no
  document carries such a date.
\<close>

theorem evaluateChecklist_clock_dependence:
  assumes "\<forall>d \<in> set docs. category d = Identity \<longrightarrow>
             (\<forall>s. stringFieldValue ''expiryDate'' d = Some s \<longrightarrow>
                (\<forall>i j. dateLess (parseDate rt1 s) (Some (clock rt1 i))
                       = dateLess (parseDate rt2 s) (Some (clock rt2 j))))"
    and "\<forall>d \<in> set docs. category d = Proof_of_address \<longrightarrow>
             (\<forall>s. stringFieldValue ''documentDate'' d = Some s \<longrightarrow>
                (\<forall>i j. dateLess (parseDate rt1 s)
                          (subtractMonths rt1 (clock rt1 i) (maxAgeMonths (reqProofOfAddress reqs)))
                       = dateLess (parseDate rt2 s)
                          (subtractMonths rt2 (clock rt2 j) (maxAgeMonths (reqProofOfAddress reqs)))))"
  shows "evaluateChecklist rt1 reqs docs app = evaluateChecklist rt2 reqs docs app"
proof -
  have i: "fst (evaluateIdentityDocuments rt1 reqs n1 (filter (\<lambda>d. category d = Identity) docs))
         = fst (evaluateIdentityDocuments rt2 reqs n2 (filter (\<lambda>d. category d = Identity) docs))" for n1 n2
    by (rule evaluateIdentityDocuments_agree) (use assms(1) in auto)
  have a: "fst (evaluateProofOfAddress rt1 reqs n1 (filter (\<lambda>d. category d = Proof_of_address) docs))
         = fst (evaluateProofOfAddress rt2 reqs n2 (filter (\<lambda>d. category d = Proof_of_address) docs))" for n1 n2
    by (rule evaluateProofOfAddress_agree) (use assms(2) in auto)
  show ?thesis
    unfolding evaluateChecklist_items
    using i [of 0 0] a by simp
qed

theorem evaluateChecklist_clock_dependence_witness:
  \<open>evaluateChecklist (\<lparr>clock = (\<lambda>i. 1700000000000), parseDate = (\<lambda>s. if s = ''2030-01-01'' then Some 1893456000000 else None), subtractMonths = (\<lambda>t m. Some (t - m * 2629800000))\<rparr>) DEFAULT_REQUIREMENTS
      [\<lparr>docId = ''doc-1'', applicationId = ''app-1'', originalFileName = ''passport.png'',
        category = Identity, classificationConfidence = toDouble 0.95, processingStatus = Completed,
        extractedData = Some \<lparr>documentType = Identity, dataConfidence = toDouble 0.9,
           extractedAt = ''2025-03-01T10:00:00.000Z'',
           dataFields =
             [(''fullName'', \<lparr>fieldValue = Some (Str ''Ada Byron''), fieldConfidence = toDouble 0.9, fieldSource = None, fieldIssues = None\<rparr>),
              (''expiryDate'', \<lparr>fieldValue = Some (Str ''2030-01-01''), fieldConfidence = toDouble 0.9, fieldSource = None, fieldIssues = None\<rparr>)]\<rparr>,
        extractionVersion = 1, completenessScore = 100, completenessIssues = [],
        createdAt = ''2025-03-01T10:00:00.000Z''\<rparr>] None
   = evaluateChecklist (\<lparr>clock = (\<lambda>i. 1800000000000), parseDate = (\<lambda>s. if s = ''2030-01-01'' then Some 1893456000000 else None), subtractMonths = (\<lambda>t m. Some (t - m * 2629800000))\<rparr>) DEFAULT_REQUIREMENTS
      [\<lparr>docId = ''doc-1'', applicationId = ''app-1'', originalFileName = ''passport.png'',
        category = Identity, classificationConfidence = toDouble 0.95, processingStatus = Completed,
        extractedData = Some \<lparr>documentType = Identity, dataConfidence = toDouble 0.9,
           extractedAt = ''2025-03-01T10:00:00.000Z'',
           dataFields =
             [(''fullName'', \<lparr>fieldValue = Some (Str ''Ada Byron''), fieldConfidence = toDouble 0.9, fieldSource = None, fieldIssues = None\<rparr>),
              (''expiryDate'', \<lparr>fieldValue = Some (Str ''2030-01-01''), fieldConfidence = toDouble 0.9, fieldSource = None, fieldIssues = None\<rparr>)]\<rparr>,
        extractionVersion = 1, completenessScore = 100, completenessIssues = [],
        createdAt = ''2025-03-01T10:00:00.000Z''\<rparr>] None\<close>
proof -
  define passport where \<open>passport =
      \<lparr>docId = ''doc-1'', applicationId = ''app-1'', originalFileName = ''passport.png'',
        category = Identity, classificationConfidence = toDouble 0.95, processingStatus = Completed,
        extractedData = Some \<lparr>documentType = Identity, dataConfidence = toDouble 0.9,
           extractedAt = ''2025-03-01T10:00:00.000Z'',
           dataFields =
             [(''fullName'', \<lparr>fieldValue = Some (Str ''Ada Byron''), fieldConfidence = toDouble 0.9, fieldSource = None, fieldIssues = None\<rparr>),
              (''expiryDate'', \<lparr>fieldValue = Some (Str ''2030-01-01''), fieldConfidence = toDouble 0.9, fieldSource = None, fieldIssues = None\<rparr>)]\<rparr>,
        extractionVersion = 1, completenessScore = 100, completenessIssues = [],
        createdAt = ''2025-03-01T10:00:00.000Z''\<rparr>\<close>
  have ex: \<open>stringFieldValue ''expiryDate'' passport = Some ''2030-01-01''\<close>
    \<open>category passport = Identity\<close>
    by (simp_all add: passport_def stringFieldValue_def)
  have h1: \<open>\<forall>d \<in> set [passport]. category d = Identity \<longrightarrow>
             (\<forall>s. stringFieldValue ''expiryDate'' d = Some s \<longrightarrow>
                (\<forall>i j. dateLess (parseDate (\<lparr>clock = (\<lambda>i. 1700000000000), parseDate = (\<lambda>s. if s = ''2030-01-01'' then Some 1893456000000 else None), subtractMonths = (\<lambda>t m. Some (t - m * 2629800000))\<rparr>) s) (Some (clock (\<lparr>clock = (\<lambda>i. 1700000000000), parseDate = (\<lambda>s. if s = ''2030-01-01'' then Some 1893456000000 else None), subtractMonths = (\<lambda>t m. Some (t - m * 2629800000))\<rparr>) i))
                       = dateLess (parseDate (\<lparr>clock = (\<lambda>i. 1800000000000), parseDate = (\<lambda>s. if s = ''2030-01-01'' then Some 1893456000000 else None), subtractMonths = (\<lambda>t m. Some (t - m * 2629800000))\<rparr>) s) (Some (clock (\<lparr>clock = (\<lambda>i. 1800000000000), parseDate = (\<lambda>s. if s = ''2030-01-01'' then Some 1893456000000 else None), subtractMonths = (\<lambda>t m. Some (t - m * 2629800000))\<rparr>) j))))\<close>
    by (simp add: ex)
  have h2: \<open>\<forall>d \<in> set [passport]. category d = Proof_of_address \<longrightarrow>
             (\<forall>s. stringFieldValue ''documentDate'' d = Some s \<longrightarrow>
                (\<forall>i j. dateLess (parseDate (\<lparr>clock = (\<lambda>i. 1700000000000), parseDate = (\<lambda>s. if s = ''2030-01-01'' then Some 1893456000000 else None), subtractMonths = (\<lambda>t m. Some (t - m * 2629800000))\<rparr>) s)
                          (subtractMonths (\<lparr>clock = (\<lambda>i. 1700000000000), parseDate = (\<lambda>s. if s = ''2030-01-01'' then Some 1893456000000 else None), subtractMonths = (\<lambda>t m. Some (t - m * 2629800000))\<rparr>) (clock (\<lparr>clock = (\<lambda>i. 1700000000000), parseDate = (\<lambda>s. if s = ''2030-01-01'' then Some 1893456000000 else None), subtractMonths = (\<lambda>t m. Some (t - m * 2629800000))\<rparr>) i)
                             (maxAgeMonths (reqProofOfAddress DEFAULT_REQUIREMENTS)))
                       = dateLess (parseDate (\<lparr>clock = (\<lambda>i. 1800000000000), parseDate = (\<lambda>s. if s = ''2030-01-01'' then Some 1893456000000 else None), subtractMonths = (\<lambda>t m. Some (t - m * 2629800000))\<rparr>) s)
                          (subtractMonths (\<lparr>clock = (\<lambda>i. 1800000000000), parseDate = (\<lambda>s. if s = ''2030-01-01'' then Some 1893456000000 else None), subtractMonths = (\<lambda>t m. Some (t - m * 2629800000))\<rparr>) (clock (\<lparr>clock = (\<lambda>i. 1800000000000), parseDate = (\<lambda>s. if s = ''2030-01-01'' then Some 1893456000000 else None), subtractMonths = (\<lambda>t m. Some (t - m * 2629800000))\<rparr>) j)
                             (maxAgeMonths (reqProofOfAddress DEFAULT_REQUIREMENTS)))))\<close>
    by (simp add: ex)
  show ?thesis
    using evaluateChecklist_clock_dependence [OF h1 h2, of None]
    unfolding passport_def .
qed

text \<open>
  The claim as stated has the result independent of the time of the call. A passport
  that expires on 2030-01-01 is verified by a call made before that day and reported
  as an issue by a call made after it, with the same documents and applicant data.
\<close>

theorem evaluateChecklist_clock_counterexample:
  \<open>status (identity (evaluateChecklist (\<lparr>clock = (\<lambda>i. 1700000000000), parseDate = (\<lambda>s. if s = ''2030-01-01'' then Some 1893456000000 else None), subtractMonths = (\<lambda>t m. Some (t - m * 2629800000))\<rparr>) DEFAULT_REQUIREMENTS
      [\<lparr>docId = ''doc-1'', applicationId = ''app-1'', originalFileName = ''passport.png'',
        category = Identity, classificationConfidence = toDouble 0.95, processingStatus = Completed,
        extractedData = Some \<lparr>documentType = Identity, dataConfidence = toDouble 0.9,
           extractedAt = ''2025-03-01T10:00:00.000Z'',
           dataFields =
             [(''fullName'', \<lparr>fieldValue = Some (Str ''Ada Byron''), fieldConfidence = toDouble 0.9, fieldSource = None, fieldIssues = None\<rparr>),
              (''expiryDate'', \<lparr>fieldValue = Some (Str ''2030-01-01''), fieldConfidence = toDouble 0.9, fieldSource = None, fieldIssues = None\<rparr>)]\<rparr>,
        extractionVersion = 1, completenessScore = 100, completenessIssues = [],
        createdAt = ''2025-03-01T10:00:00.000Z''\<rparr>] None)) = Verified
   \<and> status (identity (evaluateChecklist (\<lparr>clock = (\<lambda>i. 1900000000000), parseDate = (\<lambda>s. if s = ''2030-01-01'' then Some 1893456000000 else None), subtractMonths = (\<lambda>t m. Some (t - m * 2629800000))\<rparr>) DEFAULT_REQUIREMENTS
      [\<lparr>docId = ''doc-1'', applicationId = ''app-1'', originalFileName = ''passport.png'',
        category = Identity, classificationConfidence = toDouble 0.95, processingStatus = Completed,
        extractedData = Some \<lparr>documentType = Identity, dataConfidence = toDouble 0.9,
           extractedAt = ''2025-03-01T10:00:00.000Z'',
           dataFields =
             [(''fullName'', \<lparr>fieldValue = Some (Str ''Ada Byron''), fieldConfidence = toDouble 0.9, fieldSource = None, fieldIssues = None\<rparr>),
              (''expiryDate'', \<lparr>fieldValue = Some (Str ''2030-01-01''), fieldConfidence = toDouble 0.9, fieldSource = None, fieldIssues = None\<rparr>)]\<rparr>,
        extractionVersion = 1, completenessScore = 100, completenessIssues = [],
        createdAt = ''2025-03-01T10:00:00.000Z''\<rparr>] None)) = Issues
   \<and> evaluateChecklist (\<lparr>clock = (\<lambda>i. 1700000000000), parseDate = (\<lambda>s. if s = ''2030-01-01'' then Some 1893456000000 else None), subtractMonths = (\<lambda>t m. Some (t - m * 2629800000))\<rparr>) DEFAULT_REQUIREMENTS
      [\<lparr>docId = ''doc-1'', applicationId = ''app-1'', originalFileName = ''passport.png'',
        category = Identity, classificationConfidence = toDouble 0.95, processingStatus = Completed,
        extractedData = Some \<lparr>documentType = Identity, dataConfidence = toDouble 0.9,
           extractedAt = ''2025-03-01T10:00:00.000Z'',
           dataFields =
             [(''fullName'', \<lparr>fieldValue = Some (Str ''Ada Byron''), fieldConfidence = toDouble 0.9, fieldSource = None, fieldIssues = None\<rparr>),
              (''expiryDate'', \<lparr>fieldValue = Some (Str ''2030-01-01''), fieldConfidence = toDouble 0.9, fieldSource = None, fieldIssues = None\<rparr>)]\<rparr>,
        extractionVersion = 1, completenessScore = 100, completenessIssues = [],
        createdAt = ''2025-03-01T10:00:00.000Z''\<rparr>] None
     \<noteq> evaluateChecklist (\<lparr>clock = (\<lambda>i. 1900000000000), parseDate = (\<lambda>s. if s = ''2030-01-01'' then Some 1893456000000 else None), subtractMonths = (\<lambda>t m. Some (t - m * 2629800000))\<rparr>) DEFAULT_REQUIREMENTS
      [\<lparr>docId = ''doc-1'', applicationId = ''app-1'', originalFileName = ''passport.png'',
        category = Identity, classificationConfidence = toDouble 0.95, processingStatus = Completed,
        extractedData = Some \<lparr>documentType = Identity, dataConfidence = toDouble 0.9,
           extractedAt = ''2025-03-01T10:00:00.000Z'',
           dataFields =
             [(''fullName'', \<lparr>fieldValue = Some (Str ''Ada Byron''), fieldConfidence = toDouble 0.9, fieldSource = None, fieldIssues = None\<rparr>),
              (''expiryDate'', \<lparr>fieldValue = Some (Str ''2030-01-01''), fieldConfidence = toDouble 0.9, fieldSource = None, fieldIssues = None\<rparr>)]\<rparr>,
        extractionVersion = 1, completenessScore = 100, completenessIssues = [],
        createdAt = ''2025-03-01T10:00:00.000Z''\<rparr>] None\<close>
proof -
  define passport where \<open>passport =
      \<lparr>docId = ''doc-1'', applicationId = ''app-1'', originalFileName = ''passport.png'',
        category = Identity, classificationConfidence = toDouble 0.95, processingStatus = Completed,
        extractedData = Some \<lparr>documentType = Identity, dataConfidence = toDouble 0.9,
           extractedAt = ''2025-03-01T10:00:00.000Z'',
           dataFields =
             [(''fullName'', \<lparr>fieldValue = Some (Str ''Ada Byron''), fieldConfidence = toDouble 0.9, fieldSource = None, fieldIssues = None\<rparr>),
              (''expiryDate'', \<lparr>fieldValue = Some (Str ''2030-01-01''), fieldConfidence = toDouble 0.9, fieldSource = None, fieldIssues = None\<rparr>)]\<rparr>,
        extractionVersion = 1, completenessScore = 100, completenessIssues = [],
        createdAt = ''2025-03-01T10:00:00.000Z''\<rparr>\<close>
  have ex: \<open>stringFieldValue ''expiryDate'' passport = Some ''2030-01-01''\<close>
    \<open>category passport = Identity\<close> \<open>processingStatus passport = Completed\<close>
    \<open>classificationConfidence passport = toDouble 0.95\<close> \<open>completenessScore passport = 100\<close>
    by (simp_all add: passport_def stringFieldValue_def)
  have before: \<open>status (identity (evaluateChecklist (\<lparr>clock = (\<lambda>i. 1700000000000), parseDate = (\<lambda>s. if s = ''2030-01-01'' then Some 1893456000000 else None), subtractMonths = (\<lambda>t m. Some (t - m * 2629800000))\<rparr>) DEFAULT_REQUIREMENTS [passport] None)) = Verified\<close>
    by (simp add: evaluateChecklist_items evaluateIdentityDocuments_def identityStep_def ex
          DEFAULT_REQUIREMENTS_def issuesOrUndefined_def double_arith)
  have after: \<open>status (identity (evaluateChecklist (\<lparr>clock = (\<lambda>i. 1900000000000), parseDate = (\<lambda>s. if s = ''2030-01-01'' then Some 1893456000000 else None), subtractMonths = (\<lambda>t m. Some (t - m * 2629800000))\<rparr>) DEFAULT_REQUIREMENTS [passport] None)) = Issues\<close>
    by (simp add: evaluateChecklist_items evaluateIdentityDocuments_def identityStep_def ex
          DEFAULT_REQUIREMENTS_def issuesOrUndefined_def double_arith)
  from before after have \<open>evaluateChecklist (\<lparr>clock = (\<lambda>i. 1700000000000), parseDate = (\<lambda>s. if s = ''2030-01-01'' then Some 1893456000000 else None), subtractMonths = (\<lambda>t m. Some (t - m * 2629800000))\<rparr>) DEFAULT_REQUIREMENTS [passport] None
     \<noteq> evaluateChecklist (\<lparr>clock = (\<lambda>i. 1900000000000), parseDate = (\<lambda>s. if s = ''2030-01-01'' then Some 1893456000000 else None), subtractMonths = (\<lambda>t m. Some (t - m * 2629800000))\<rparr>) DEFAULT_REQUIREMENTS [passport] None\<close>
    by auto
  with before after show ?thesis unfolding passport_def by blast
qed


subsection \<open>The status of the case\<close>
















end
